theory Spec2Isabelle
  imports Complex_Main "HOL-Library.Log_Nat"
begin

section \<open>Values and exceptions of the Python program\<close>

text \<open>
  The integration in \<^verbatim>\<open>custom_components/e-bloc/sensor.py\<close> works on decoded JSON: the
  result of \<^verbatim>\<open>response.json()\<close> is whatever the portal sent, so a value is any JSON value.
  A \<^verbatim>\<open>dict\<close> is an association list in insertion order (its keys are distinct in
  Python), a \<^verbatim>\<open>str\<close> is the list of its UTF-8 bytes. A finite \<^verbatim>\<open>float\<close> is \<open>PFloat x\<close>,
  which stands for the binary64 number nearest to the rational \<open>x\<close> (and for an infinity
  when \<open>x\<close> is too large for a float); so \<open>PFloat 1.234\<close> is the float Python prints as
  \<^verbatim>\<open>1.234\<close>. The two zeros, equal in Python, are both \<open>PFloat 0\<close>. \<open>PInf\<close>, \<open>PNegInf\<close> and
  \<open>PNaN\<close> are the floats that are not finite, which the JSON decoder and \<^verbatim>\<open>float\<close>
  accept as well.
\<close>

datatype pyval =
    PNone
  | PBool bool
  | PInt int
  | PFloat rat
  | PInf
  | PNegInf
  | PNaN
  | PStr string
  | PList "pyval list"
  | PDict "(string \<times> pyval) list"

text \<open>
  The exceptions the code can meet. All of them are instances of Python's
  \<^verbatim>\<open>Exception\<close>, the class every handler of the file names; \<open>ClientError\<close> stands for
  whatever the HTTP transport or the JSON decoder raises.
  \<^verbatim>\<open>UpdateFailed\<close> carries its message; the two formatted messages
  \<^verbatim>\<open>f"Eroare la autentificare: {e}"\<close> and \<^verbatim>\<open>f"Eroare la actualizarea datelor: {e}"\<close>
  are kept as the exception \<open>e\<close> they print.
\<close>

datatype exn =
    IndexError
  | KeyError string
  | TypeError
  | ValueError
  | AttributeError
  | OverflowError
  | ClientError string
  | UpdateFailed msg
and msg =
    Autentificare_esuata
  | Eroare_la_autentificare exn
  | Eroare_la_actualizarea_datelor exn

fun is_UpdateFailed :: "exn \<Rightarrow> bool" where
  "is_UpdateFailed (UpdateFailed m) = True"
| "is_UpdateFailed e = False"

text \<open>Sequencing of computations that may raise: the first exception wins.\<close>

definition thenE :: "exn + 'a \<Rightarrow> ('a \<Rightarrow> exn + 'b) \<Rightarrow> exn + 'b" where
  "thenE m f = (case m of Inl e \<Rightarrow> Inl e | Inr v \<Rightarrow> f v)"

subsection \<open>Floats\<close>

text \<open>
  A Python \<^verbatim>\<open>float\<close> is a binary64 number: 53 significant bits, exponents from -1022
  to 1023, subnormal numbers below. \<open>to_double x\<close> is the float nearest to the rational
  \<open>x\<close>, a tie going to the even significand; it is what an operation on floats returns
  for the exact result \<open>x\<close>. \<open>exponent x\<close> is the \<open>e\<close> with \<open>2 ^ e \<le> \<bar>x\<bar> < 2 ^ (e + 1)\<close>,
  \<open>ulp x\<close> the distance between the floats around \<open>x\<close>.
\<close>

definition round_half_even :: "rat \<Rightarrow> int" where
  "round_half_even x =
     (let f = \<lfloor>x\<rfloor>; d = x - of_int f
      in if d < 1 / 2 then f else if 1 / 2 < d then f + 1 else if even f then f else f + 1)"

definition exponent :: "rat \<Rightarrow> int" where
  "exponent x =
     (case quotient_of \<bar>x\<bar> of
        (a, b) \<Rightarrow> (let e = bitlen a - bitlen b in if 2 powi e \<le> \<bar>x\<bar> then e else e - 1))"

definition ulp :: "rat \<Rightarrow> rat" where
  "ulp x = 2 powi (max (exponent x) (- 1022) - 52)"

definition to_double :: "rat \<Rightarrow> rat" where
  "to_double x = (if x = 0 then 0 else of_int (round_half_even (x / ulp x)) * ulp x)"

text \<open>
  A number is too large for a \<^verbatim>\<open>float\<close> when it rounds to \<open>2 ^ 1024\<close>: converting such
  an \<^verbatim>\<open>int\<close>, or dividing two ints with such a quotient, is an OverflowError.
\<close>

definition float_overflow :: "rat \<Rightarrow> bool" where
  "float_overflow q = (2 ^ 1024 - 2 ^ 970 \<le> \<bar>q\<bar>)"

text \<open>
  A float while the sensors compute with it: \<open>Finite x\<close> is the float \<open>to_double x\<close>.
  \<open>float_of_rat\<close> is the float a number stands for, \<open>of_float\<close> the value of a float.
\<close>

datatype pyfloat = Finite rat | PosInf | NegInf | NaN

definition float_of_rat :: "rat \<Rightarrow> pyfloat" where
  "float_of_rat x = (if float_overflow x then (if 0 < x then PosInf else NegInf) else Finite x)"

fun of_float :: "pyfloat \<Rightarrow> pyval" where
  "of_float (Finite x) = PFloat x"
| "of_float PosInf = PInf"
| "of_float NegInf = PNegInf"
| "of_float NaN = PNaN"

subsection \<open>Truth, subscripts and lookups\<close>

text \<open>Truth value of an object, as \<^verbatim>\<open>or\<close>, \<^verbatim>\<open>not\<close> and \<^verbatim>\<open>if\<close> test it.\<close>

fun truthy :: "pyval \<Rightarrow> bool" where
  "truthy PNone = False"
| "truthy (PBool b) = b"
| "truthy (PInt n) = (n \<noteq> 0)"
| "truthy (PFloat x) = (to_double x \<noteq> 0)"
| "truthy PInf = True"
| "truthy PNegInf = True"
| "truthy PNaN = True"
| "truthy (PStr s) = (s \<noteq> [])"
| "truthy (PList xs) = (xs \<noteq> [])"
| "truthy (PDict kvs) = (kvs \<noteq> [])"

text \<open>\<^verbatim>\<open>v[k]\<close> with a string key: only a dict can be subscripted by a string.\<close>

fun py_getitem :: "pyval \<Rightarrow> string \<Rightarrow> exn + pyval" where
  "py_getitem (PDict kvs) k = (case map_of kvs k of None \<Rightarrow> Inl (KeyError k) | Some v \<Rightarrow> Inr v)"
| "py_getitem v k = Inl TypeError"

text \<open>\<^verbatim>\<open>v.get(k, d)\<close>: only a dict has the method.\<close>

fun py_get :: "pyval \<Rightarrow> string \<Rightarrow> pyval \<Rightarrow> exn + pyval" where
  "py_get (PDict kvs) k d = Inr (case map_of kvs k of None \<Rightarrow> d | Some v \<Rightarrow> v)"
| "py_get v k d = Inl AttributeError"

section \<open>The coordinator\<close>

subsection \<open>The active month\<close>

text \<open>
  \<^verbatim>\<open>next((v['luna'] for k, v in first_three_months.items() if v['open'] == '0'), None)\<close>:
  the generator is consumed from the left and stops at the first entry whose
  \<^verbatim>\<open>open\<close> is the string \<^verbatim>\<open>'0'\<close>; subscripting an entry may raise on the way.
\<close>

fun next_luna :: "(string \<times> pyval) list \<Rightarrow> exn + pyval" where
  "next_luna [] = Inr PNone"
| "next_luna ((k, v) # rest) =
     thenE (py_getitem v ''open'')
       (\<lambda>opn. if opn = PStr ''0'' then py_getitem v ''luna'' else next_luna rest)"

text \<open>\<^verbatim>\<open>list(first_three_months.values())[0]['luna']\<close>\<close>

definition first_luna :: "(string \<times> pyval) list \<Rightarrow> exn + pyval" where
  "first_luna first_three_months =
     (case map snd first_three_months of
        [] \<Rightarrow> Inl IndexError
      | v # _ \<Rightarrow> py_getitem v ''luna'')"

text \<open>
  \<^verbatim>\<open>first_three_months = {k: lista_luni[k] for k in list(lista_luni.keys())[:3]}\<close> is the
  dict of the first three items of \<^verbatim>\<open>lista_luni\<close>; a value that is not a dict has no
  \<^verbatim>\<open>keys\<close>. \<^verbatim>\<open>a or b\<close> is \<^verbatim>\<open>a\<close> when \<^verbatim>\<open>a\<close> is truthy, else \<^verbatim>\<open>b\<close>.
\<close>

fun get_luna_activa :: "pyval \<Rightarrow> exn + pyval" where
  "get_luna_activa (PDict lista_luni) =
     (let first_three_months = take 3 lista_luni
      in thenE (next_luna first_three_months)
           (\<lambda>found. if truthy found then Inr found else first_luna first_three_months))"
| "get_luna_activa v = Inl AttributeError"


subsection \<open>Transport, configuration and state\<close>

text \<open>
  The constants of \<^verbatim>\<open>const.py\<close> are not part of the file; they are a parameter.
\<close>

record constants =
  URL_LOGIN :: string
  HEADERS_LOGIN :: pyval
  HEADERS_POST :: pyval
  URL_HOME :: string
  URL_INDEX :: string
  URL_RECEIPTS :: string
  URL_LISTA_LUNI :: string

text \<open>
  \<^verbatim>\<open>session.post(url, data=payload, headers=...)\<close> and the response it yields:
  \<^verbatim>\<open>response.status\<close>, \<^verbatim>\<open>await response.text()\<close> (the field \<open>text_body\<close>) and \<^verbatim>\<open>await response.json()\<close>, the
  last two of which may raise. The portal is any deterministic transport: it answers a
  request from its own state \<open>'w\<close> and moves to a new one, or raises.
\<close>

datatype request = Post string pyval pyval

record response =
  status :: int
  text_body :: "exn + string"
  json :: "exn + pyval"

type_synonym 'w transport = "request \<Rightarrow> 'w \<Rightarrow> (exn + response) \<times> 'w"

text \<open>
  \<^verbatim>\<open>self.config\<close> is the data of the config entry; the setup form, which is outside the
  file, stores the four keys the coordinator subscripts.
\<close>

record config =
  pIdAsoc :: pyval
  pIdAp :: pyval
  pUser :: pyval
  pPass :: pyval

text \<open>
  The attributes of \<^verbatim>\<open>EBlocDataUpdateCoordinator\<close>: \<open>session\<close> is false while
  \<^verbatim>\<open>self.session\<close> is \<^verbatim>\<open>None\<close>; \<open>data\<close> is the attribute
  \<^verbatim>\<open>self.data\<close> inherited from the host's \<^verbatim>\<open>DataUpdateCoordinator\<close>, the snapshot the
  sensors read (absent before the first successful refresh).
\<close>

record coordinator =
  session :: bool
  authenticated :: bool
  data :: "pyval option"

text \<open>\<^verbatim>\<open>__init__\<close>\<close>

definition init :: coordinator where
  "init = \<lparr>session = False, authenticated = False, data = None\<rparr>"

text \<open>\<^verbatim>\<open>needle in haystack\<close> on strings\<close>

fun py_in :: "string \<Rightarrow> string \<Rightarrow> bool" where
  "py_in needle [] = (needle = [])"
| "py_in needle (c # cs) = (take (length needle) (c # cs) = needle \<or> py_in needle cs)"

definition marker :: string where
  "marker = ''Acces online proprietari''"

subsection \<open>\<^verbatim>\<open>_fetch_data\<close>\<close>

text \<open>The body of the \<^verbatim>\<open>try\<close>; \<^verbatim>\<open>None.post\<close> is an AttributeError.\<close>

definition fetch_data_try ::
  "constants \<Rightarrow> 'w transport \<Rightarrow> coordinator \<Rightarrow> string \<Rightarrow> pyval \<Rightarrow> 'w \<Rightarrow> (exn + pyval) \<times> 'w" where
  "fetch_data_try K post self url payload w =
     (if session self
      then (case post (Post url payload (HEADERS_POST K)) w of
              (Inl e, w') \<Rightarrow> (Inl e, w')
            | (Inr response, w') \<Rightarrow>
                (if status response = 200 then json response else Inr (PDict []), w'))
      else (Inl AttributeError, w))"

text \<open>\<^verbatim>\<open>except Exception as e:\<close> log the error and \<^verbatim>\<open>return {}\<close>\<close>

definition fetch_data ::
  "constants \<Rightarrow> 'w transport \<Rightarrow> coordinator \<Rightarrow> string \<Rightarrow> pyval \<Rightarrow> 'w \<Rightarrow> (exn + pyval) \<times> 'w" where
  "fetch_data K post self url payload w =
     (case fetch_data_try K post self url payload w of
        (Inl e, w') \<Rightarrow> (Inr (PDict []), w')
      | (Inr body, w') \<Rightarrow> (Inr body, w'))"

subsection \<open>\<^verbatim>\<open>_authenticate\<close>\<close>

text \<open>
  The body of the \<^verbatim>\<open>try\<close>. \<^verbatim>\<open>and\<close> reads the text only when the status is 200.
\<close>

definition authenticate_try ::
  "constants \<Rightarrow> 'w transport \<Rightarrow> config \<Rightarrow> coordinator \<Rightarrow> 'w \<Rightarrow> (exn + unit) \<times> coordinator \<times> 'w" where
  "authenticate_try K post cfg self w =
     (let payload = PDict [(''pUser'', pUser cfg), (''pPass'', pPass cfg)]
      in if session self
         then (case post (Post (URL_LOGIN K) payload (HEADERS_LOGIN K)) w of
                 (Inl e, w') \<Rightarrow> (Inl e, self, w')
               | (Inr response, w') \<Rightarrow>
                   (if status response = 200
                    then (case text_body response of
                            Inl e \<Rightarrow> (Inl e, self, w')
                          | Inr body \<Rightarrow>
                              (if py_in marker body
                               then (Inr (), self\<lparr>authenticated := True\<rparr>, w')
                               else (Inl (UpdateFailed Autentificare_esuata), self, w')))
                    else (Inl (UpdateFailed Autentificare_esuata), self, w')))
         else (Inl AttributeError, self, w))"

text \<open>\<^verbatim>\<open>except Exception as e: raise UpdateFailed(f"Eroare la autentificare: {e}")\<close>\<close>

definition authenticate ::
  "constants \<Rightarrow> 'w transport \<Rightarrow> config \<Rightarrow> coordinator \<Rightarrow> 'w \<Rightarrow> (exn + unit) \<times> coordinator \<times> 'w" where
  "authenticate K post cfg self w =
     (case authenticate_try K post cfg self w of
        (Inl e, self', w') \<Rightarrow> (Inl (UpdateFailed (Eroare_la_autentificare e)), self', w')
      | (Inr u, self', w') \<Rightarrow> (Inr u, self', w'))"

subsection \<open>\<^verbatim>\<open>_async_update_data\<close>\<close>

text \<open>
  The three period-scoped fetches and the dict the cycle returns; the values of a dict
  display are evaluated from the left.
\<close>

definition fetch_snapshot ::
  "constants \<Rightarrow> 'w transport \<Rightarrow> config \<Rightarrow> coordinator \<Rightarrow> pyval \<Rightarrow> pyval \<Rightarrow> 'w \<Rightarrow> (exn + pyval) \<times> 'w" where
  "fetch_snapshot K post cfg self lista_luni luna_activa w =
     (let payload = PDict [(''pIdAsoc'', pIdAsoc cfg), (''pIdAp'', pIdAp cfg),
                           (''pLuna'', luna_activa)]
      in case fetch_data K post self (URL_HOME K) payload w of
           (Inl e, w1) \<Rightarrow> (Inl e, w1)
         | (Inr home, w1) \<Rightarrow>
      (case fetch_data K post self (URL_INDEX K) payload w1 of
           (Inl e, w2) \<Rightarrow> (Inl e, w2)
         | (Inr index, w2) \<Rightarrow>
      (case fetch_data K post self (URL_RECEIPTS K) payload w2 of
           (Inl e, w3) \<Rightarrow> (Inl e, w3)
         | (Inr receipts, w3) \<Rightarrow>
             (Inr (PDict [(''home'', home), (''index'', index), (''receipts'', receipts),
                          (''lista_luni'', lista_luni), (''luna_activa'', luna_activa)]), w3))))"

text \<open>The body of the \<^verbatim>\<open>try\<close>, from the month list on (lines 52 to 68).\<close>

definition fetch_all ::
  "constants \<Rightarrow> 'w transport \<Rightarrow> config \<Rightarrow> coordinator \<Rightarrow> 'w \<Rightarrow> (exn + pyval) \<times> 'w" where
  "fetch_all K post cfg self w =
     (let initial_payload = PDict [(''pIdAsoc'', pIdAsoc cfg), (''pIdAp'', pIdAp cfg)]
      in case fetch_data K post self (URL_LISTA_LUNI K) initial_payload w of
           (Inl e, w1) \<Rightarrow> (Inl e, w1)
         | (Inr lista_luni, w1) \<Rightarrow>
             (case get_luna_activa lista_luni of
                Inl e \<Rightarrow> (Inl e, w1)
              | Inr luna_activa \<Rightarrow> fetch_snapshot K post cfg self lista_luni luna_activa w1))"

text \<open>
  The whole body of the \<^verbatim>\<open>try\<close>: create the session if there is none, log in if the
  flag is not set, then fetch. Assignments to \<^verbatim>\<open>self\<close> stay when a later step raises.
\<close>

definition async_update_data_try ::
  "constants \<Rightarrow> 'w transport \<Rightarrow> config \<Rightarrow> coordinator \<Rightarrow> 'w \<Rightarrow> (exn + pyval) \<times> coordinator \<times> 'w" where
  "async_update_data_try K post cfg self w =
     (let self1 = (if session self then self else self\<lparr>session := True\<rparr>)
      in if authenticated self1
         then (case fetch_all K post cfg self1 w of (r, w') \<Rightarrow> (r, self1, w'))
         else (case authenticate K post cfg self1 w of
                 (Inl e, self2, w') \<Rightarrow> (Inl e, self2, w')
               | (Inr u, self2, w') \<Rightarrow>
                   (case fetch_all K post cfg self2 w' of (r, w'') \<Rightarrow> (r, self2, w''))))"

text \<open>\<^verbatim>\<open>except Exception as e: raise UpdateFailed(f"Eroare la actualizarea datelor: {e}")\<close>\<close>

definition async_update_data ::
  "constants \<Rightarrow> 'w transport \<Rightarrow> config \<Rightarrow> coordinator \<Rightarrow> 'w \<Rightarrow> (exn + pyval) \<times> coordinator \<times> 'w" where
  "async_update_data K post cfg self w =
     (case async_update_data_try K post cfg self w of
        (Inl e, self', w') \<Rightarrow> (Inl (UpdateFailed (Eroare_la_actualizarea_datelor e)), self', w')
      | (Inr snapshot, self', w') \<Rightarrow> (Inr snapshot, self', w'))"

section \<open>The sensors\<close>

subsection \<open>Built-ins\<close>

text \<open>
  What Python itself does with a string is a parameter: \<open>int_str\<close> and \<open>float_str\<close> are
  \<^verbatim>\<open>int(s)\<close> and \<^verbatim>\<open>float(s)\<close> on a \<^verbatim>\<open>str\<close> (\<open>None\<close> where Python raises ValueError),
  \<open>str_builtin\<close> is the text an f-string gives a value that is not a \<^verbatim>\<open>str\<close>.
\<close>

record builtins =
  int_str :: "string \<Rightarrow> int option"
  float_str :: "string \<Rightarrow> pyfloat option"
  str_builtin :: "pyval \<Rightarrow> exn + string"

text \<open>
  \<^verbatim>\<open>int(v)\<close>; a float is truncated towards zero, an infinity is an OverflowError and
  NaN a ValueError.
\<close>

fun py_int :: "builtins \<Rightarrow> pyval \<Rightarrow> exn + int" where
  "py_int B PNone = Inl TypeError"
| "py_int B (PBool b) = Inr (if b then 1 else 0)"
| "py_int B (PInt n) = Inr n"
| "py_int B (PFloat x) =
     (if float_overflow x then Inl OverflowError
      else Inr (if 0 \<le> x then \<lfloor>to_double x\<rfloor> else \<lceil>to_double x\<rceil>))"
| "py_int B PInf = Inl OverflowError"
| "py_int B PNegInf = Inl OverflowError"
| "py_int B PNaN = Inl ValueError"
| "py_int B (PStr s) = (case int_str B s of None \<Rightarrow> Inl ValueError | Some n \<Rightarrow> Inr n)"
| "py_int B (PList xs) = Inl TypeError"
| "py_int B (PDict kvs) = Inl TypeError"

text \<open>
  \<^verbatim>\<open>float(v)\<close>: an \<^verbatim>\<open>int\<close> is rounded to the nearest float, a \<^verbatim>\<open>bool\<close> is the int 1 or
  0, a float is itself, a string is parsed.
\<close>

fun py_float :: "builtins \<Rightarrow> pyval \<Rightarrow> exn + pyfloat" where
  "py_float B PNone = Inl TypeError"
| "py_float B (PBool b) = Inr (Finite (if b then 1 else 0))"
| "py_float B (PInt n) =
     (if float_overflow (of_int n) then Inl OverflowError else Inr (Finite (of_int n)))"
| "py_float B (PFloat x) = Inr (float_of_rat x)"
| "py_float B PInf = Inr PosInf"
| "py_float B PNegInf = Inr NegInf"
| "py_float B PNaN = Inr NaN"
| "py_float B (PStr s) =
     (case float_str B s of
        None \<Rightarrow> Inl ValueError
      | Some (Finite x) \<Rightarrow> Inr (float_of_rat x)
      | Some f \<Rightarrow> Inr f)"
| "py_float B (PList xs) = Inl TypeError"
| "py_float B (PDict kvs) = Inl TypeError"

text \<open>\<^verbatim>\<open>n / 100\<close> on an \<^verbatim>\<open>int\<close>: the float nearest to the quotient\<close>

definition div_100 :: "int \<Rightarrow> exn + rat" where
  "div_100 n = (if float_overflow (of_int n / 100) then Inl OverflowError else Inr (of_int n / 100))"

text \<open>
  \<^verbatim>\<open>x / 1000\<close> on a float: the float nearest to the quotient of the float by 1000; an
  infinity and NaN stay what they are.
\<close>

fun div_1000 :: "pyfloat \<Rightarrow> pyfloat" where
  "div_1000 (Finite x) = Finite (to_double x / 1000)"
| "div_1000 f = f"

text \<open>
  \<^verbatim>\<open>round(x, ndigits)\<close> on a finite float: the exact value of the float is rounded to the
  nearest multiple of \<open>10 ^ -ndigits\<close>, a tie to the even one, and the result is the float
  nearest to that decimal. An infinity and NaN round to themselves.
\<close>

definition py_round :: "nat \<Rightarrow> rat \<Rightarrow> rat" where
  "py_round ndigits x = of_int (round_half_even (to_double x * 10 ^ ndigits)) / 10 ^ ndigits"

fun float_round :: "nat \<Rightarrow> pyfloat \<Rightarrow> pyfloat" where
  "float_round ndigits (Finite x) = Finite (py_round ndigits x)"
| "float_round ndigits f = f"

text \<open>Decimal digits of a natural number.\<close>

definition digit :: "nat \<Rightarrow> char" where
  "digit d = ''0123456789'' ! (d mod 10)"

function show_nat :: "nat \<Rightarrow> string" where
  "show_nat n = (if n < 10 then [digit n] else show_nat (n div 10) @ [digit (n mod 10)])"
  by pat_completeness auto
termination
  by (relation "measure id") auto

declare show_nat.simps [simp del]

text \<open>
  The format \<^verbatim>\<open>:.2f\<close> of a finite float: its sign, and its magnitude rounded to two
  decimals, a tie to the even one.
\<close>

definition format_2f :: "rat \<Rightarrow> string" where
  "format_2f x =
     (let m = nat (round_half_even (to_double \<bar>x\<bar> * 100))
      in (if x < 0 then ''-'' else []) @ show_nat (m div 100) @ ''.''
         @ [digit (m div 10), digit m])"

text \<open>A replacement field \<^verbatim>\<open>{v}\<close> of an f-string\<close>

fun py_format :: "builtins \<Rightarrow> pyval \<Rightarrow> exn + string" where
  "py_format B (PStr s) = Inr s"
| "py_format B v = str_builtin B v"

text \<open>\<^verbatim>\<open>f"{int(v) / 100:.2f} RON"\<close>\<close>

definition format_ron :: "builtins \<Rightarrow> pyval \<Rightarrow> exn + string" where
  "format_ron B v =
     thenE (py_int B v) (\<lambda>cents.
     thenE (div_100 cents) (\<lambda>ron. Inr (format_2f ron @ '' RON'')))"

subsection \<open>Reading the snapshot\<close>

text \<open>
  The sensors read \<^verbatim>\<open>self._coordinator.data\<close>. The letters of the Romanian names that
  are not ASCII are written as their UTF-8 bytes.
\<close>

definition home_1 :: "pyval \<Rightarrow> exn + pyval" where
  "home_1 snapshot =
     thenE (py_get snapshot ''home'' (PDict [])) (\<lambda>home. py_get home ''1'' (PDict []))"

definition t_comma :: string where
  "t_comma = [CHR 0xC8, CHR 0x9B]"

definition a_breve :: string where
  "a_breve = [CHR 0xC4, CHR 0x83]"

definition ClientSensor_native_value :: "pyval \<Rightarrow> exn + pyval" where
  "ClientSensor_native_value snapshot =
     thenE (home_1 snapshot) (\<lambda>d. py_get d ''cod_client'' PNone)"

definition ClientSensor_extra_state_attributes :: "builtins \<Rightarrow> pyval \<Rightarrow> exn + pyval" where
  "ClientSensor_extra_state_attributes B snapshot =
     thenE (home_1 snapshot) (\<lambda>d.
     thenE (py_get d ''ap'' PNone) (\<lambda>ap.
     thenE (py_get d ''nr_pers_afisat'' PNone) (\<lambda>nr_pers_afisat.
     thenE (py_get d ''datorie'' (PInt 0)) (\<lambda>datorie.
     thenE (format_ron B datorie) (\<lambda>restanta.
     thenE (py_get d ''ultima_zi_plata'' PNone) (\<lambda>ultima_zi_plata.
     thenE (py_get d ''contoare_citite'' PNone) (\<lambda>contoare_citite.
     thenE (py_get d ''citire_contoare_start'' (PStr [])) (\<lambda>start.
     thenE (py_format B start) (\<lambda>start_text.
     thenE (py_get d ''citire_contoare_end'' (PStr [])) (\<lambda>stop.
     thenE (py_format B stop) (\<lambda>stop_text.
     thenE (py_get d ''luna_veche'' PNone) (\<lambda>luna_veche.
     thenE (py_get d ''nivel_restanta'' PNone) (\<lambda>nivel_restanta.
       Inr (PDict
         [(''Apartament'', ap),
          (''Persoane'', nr_pers_afisat),
          (''Restan'' @ t_comma @ a_breve, PStr restanta),
          (''Ultima zi plat'' @ a_breve, ultima_zi_plata),
          (''Contor trimis'', PStr (if contoare_citite = PStr ''1'' then ''Da'' else ''Nu'')),
          (''Perioad'' @ a_breve @ '' citire'', PStr (start_text @ '' - '' @ stop_text)),
          (''Luna veche'', luna_veche),
          (''Nivel restan'' @ t_comma @ a_breve, nivel_restanta)]))))))))))))))"

text \<open>
  The four meter sensors differ in the key of \<^verbatim>\<open>index\<close> they read: \<^verbatim>\<open>"2"\<close> cold
  water, \<^verbatim>\<open>"3"\<close> hot water, \<^verbatim>\<open>"4"\<close> heating, \<^verbatim>\<open>"5"\<close> electricity. First the body of
  their \<^verbatim>\<open>try\<close>, then the handler \<^verbatim>\<open>except (ValueError, TypeError): return None\<close>.
\<close>

definition index_nou_try :: "builtins \<Rightarrow> pyval \<Rightarrow> exn + pyval" where
  "index_nou_try B d =
     thenE (py_get d ''index_nou'' (PInt 0)) (\<lambda>raw.
     thenE (py_float B raw) (\<lambda>x. Inr (of_float (float_round 3 (div_1000 x)))))"

fun except_ValueError_TypeError :: "exn + pyval \<Rightarrow> exn + pyval" where
  "except_ValueError_TypeError (Inl ValueError) = Inr PNone"
| "except_ValueError_TypeError (Inl TypeError) = Inr PNone"
| "except_ValueError_TypeError r = r"

definition meter_native_value :: "builtins \<Rightarrow> string \<Rightarrow> pyval \<Rightarrow> exn + pyval" where
  "meter_native_value B k snapshot =
     thenE (thenE (py_get snapshot ''index'' (PDict [])) (\<lambda>index. py_get index k (PDict [])))
       (\<lambda>d. except_ValueError_TypeError (index_nou_try B d))"

definition ApaReceSensor_native_value :: "builtins \<Rightarrow> pyval \<Rightarrow> exn + pyval" where
  "ApaReceSensor_native_value B = meter_native_value B ''2''"

definition ApaCaldaSensor_native_value :: "builtins \<Rightarrow> pyval \<Rightarrow> exn + pyval" where
  "ApaCaldaSensor_native_value B = meter_native_value B ''3''"

definition CalduraSensor_native_value :: "builtins \<Rightarrow> pyval \<Rightarrow> exn + pyval" where
  "CalduraSensor_native_value B = meter_native_value B ''4''"

definition CurentSensor_native_value :: "builtins \<Rightarrow> pyval \<Rightarrow> exn + pyval" where
  "CurentSensor_native_value B = meter_native_value B ''5''"

text \<open>The payments: \<^verbatim>\<open>isinstance(receipts, dict)\<close> holds of a dict only.\<close>

definition PlatiSensor_native_value :: "pyval \<Rightarrow> exn + pyval" where
  "PlatiSensor_native_value snapshot =
     thenE (py_get snapshot ''receipts'' (PDict [])) (\<lambda>receipts.
       Inr (PInt (case receipts of PDict kvs \<Rightarrow> int (length kvs) | _ \<Rightarrow> 0)))"

definition receipt_text :: "builtins \<Rightarrow> pyval \<Rightarrow> exn + string" where
  "receipt_text B r =
     thenE (py_get r ''numar'' (PStr [])) (\<lambda>numar.
     thenE (py_format B numar) (\<lambda>numar_text.
     thenE (py_get r ''data'' (PStr [])) (\<lambda>date.
     thenE (py_format B date) (\<lambda>date_text.
     thenE (py_get r ''suma'' (PInt 0)) (\<lambda>suma.
     thenE (format_ron B suma) (\<lambda>suma_text.
       Inr (numar_text @ '' - '' @ date_text @ '' - '' @ suma_text)))))))"

fun receipt_items :: "builtins \<Rightarrow> nat \<Rightarrow> pyval list \<Rightarrow> exn + (string \<times> pyval) list" where
  "receipt_items B i [] = Inr []"
| "receipt_items B i (r # rs) =
     thenE (receipt_text B r) (\<lambda>line.
     thenE (receipt_items B (Suc i) rs) (\<lambda>rest.
       Inr ((''Chitan'' @ t_comma @ ''a '' @ show_nat i, PStr line) # rest)))"

definition PlatiSensor_extra_state_attributes :: "builtins \<Rightarrow> pyval \<Rightarrow> exn + pyval" where
  "PlatiSensor_extra_state_attributes B snapshot =
     thenE (py_get snapshot ''receipts'' (PDict [])) (\<lambda>receipts.
       case receipts of
         PDict kvs \<Rightarrow> thenE (receipt_items B 1 (map snd kvs)) (\<lambda>items. Inr (PDict items))
       | _ \<Rightarrow> Inr (PDict []))"

text \<open>The sensors of one field of \<^verbatim>\<open>home["1"]\<close>\<close>

definition home_field :: "string \<Rightarrow> pyval \<Rightarrow> exn + pyval" where
  "home_field k snapshot = thenE (home_1 snapshot) (\<lambda>d. py_get d k PNone)"

definition ApartamentSensor_native_value :: "pyval \<Rightarrow> exn + pyval" where
  "ApartamentSensor_native_value = home_field ''ap''"

definition PersoaneSensor_native_value :: "pyval \<Rightarrow> exn + pyval" where
  "PersoaneSensor_native_value = home_field ''nr_pers_afisat''"

definition RestantaSensor_native_value :: "builtins \<Rightarrow> pyval \<Rightarrow> exn + pyval" where
  "RestantaSensor_native_value B snapshot =
     thenE (home_field ''datorie'' snapshot) (\<lambda>datorie.
       if truthy datorie
       then thenE (py_int B datorie) (\<lambda>cents.
            thenE (div_100 cents) (\<lambda>x. Inr (PFloat (py_round 2 x))))
       else Inr (PFloat 0))"

definition UltimaZiSensor_native_value :: "pyval \<Rightarrow> exn + pyval" where
  "UltimaZiSensor_native_value = home_field ''ultima_zi_plata''"

definition ContorTrimisSensor_native_value :: "pyval \<Rightarrow> exn + pyval" where
  "ContorTrimisSensor_native_value snapshot =
     thenE (home_field ''contoare_citite'' snapshot) (\<lambda>val.
       Inr (PStr (if val = PStr ''1'' then ''Da'' else ''Nu'')))"

definition IncepereCitireSensor_native_value :: "pyval \<Rightarrow> exn + pyval" where
  "IncepereCitireSensor_native_value = home_field ''citire_contoare_start''"

definition IncheiereCitireSensor_native_value :: "pyval \<Rightarrow> exn + pyval" where
  "IncheiereCitireSensor_native_value = home_field ''citire_contoare_end''"

definition LunaVecheSensor_native_value :: "pyval \<Rightarrow> exn + pyval" where
  "LunaVecheSensor_native_value = home_field ''luna_veche''"

definition LunaCurentaSensor_native_value :: "pyval \<Rightarrow> exn + pyval" where
  "LunaCurentaSensor_native_value snapshot = py_get snapshot ''luna_activa'' PNone"

definition NivelRestantaSensor_native_value :: "pyval \<Rightarrow> exn + pyval" where
  "NivelRestantaSensor_native_value = home_field ''nivel_restanta''"

section \<open>Notions the properties are stated with\<close>

text \<open>
  A month entry as the portal sends it: a dict with the keys \<^verbatim>\<open>luna\<close> (the month) and
  \<^verbatim>\<open>open\<close>. An entry is closed when its \<^verbatim>\<open>open\<close> is the string \<^verbatim>\<open>"0"\<close>.
\<close>

definition month_entry :: "pyval \<Rightarrow> bool" where
  "month_entry v =
     (case v of
        PDict kvs \<Rightarrow> map_of kvs ''luna'' \<noteq> None \<and> map_of kvs ''open'' \<noteq> None
      | _ \<Rightarrow> False)"

definition is_closed :: "pyval \<Rightarrow> bool" where
  "is_closed v = (py_getitem v ''open'' = Inr (PStr ''0''))"

definition luna :: "pyval \<Rightarrow> pyval" where
  "luna v = (case py_getitem v ''luna'' of Inr l \<Rightarrow> l | Inl e \<Rightarrow> PNone)"

text \<open>The first closed entry among the first three of a month list.\<close>

definition first_closed :: "(string \<times> pyval) list \<Rightarrow> pyval option" where
  "first_closed ms = find is_closed (map snd (take 3 ms))"

text \<open>
  The active month in the words of the specification: the month of the first closed
  entry among the first three, the month of the very first entry when none is closed,
  and no month for the empty list.
\<close>

definition spec_determineActiveMonth :: "(string \<times> pyval) list \<Rightarrow> pyval" where
  "spec_determineActiveMonth ms =
     (case take 3 ms of
        [] \<Rightarrow> PNone
      | (k, v0) # _ \<Rightarrow> (case first_closed ms of Some v \<Rightarrow> luna v | None \<Rightarrow> luna v0))"

text \<open>The login request of \<^verbatim>\<open>_authenticate\<close>.\<close>

definition login_request :: "constants \<Rightarrow> config \<Rightarrow> request" where
  "login_request K cfg =
     Post (URL_LOGIN K) (PDict [(''pUser'', pUser cfg), (''pPass'', pPass cfg)]) (HEADERS_LOGIN K)"

text \<open>A transport that keeps the list of the requests it was sent.\<close>

definition recording :: "'w transport \<Rightarrow> ('w \<times> request list) transport" where
  "recording post req = (\<lambda>(w, sent). case post req w of (r, w') \<Rightarrow> (r, (w', sent @ [req])))"

text \<open>The host calls \<^verbatim>\<open>_async_update_data\<close> again and again: \<open>n\<close> cycles in a row.\<close>

fun cycles ::
  "constants \<Rightarrow> 'w transport \<Rightarrow> config \<Rightarrow> nat \<Rightarrow> coordinator \<times> 'w \<Rightarrow> coordinator \<times> 'w" where
  "cycles K post cfg 0 s = s"
| "cycles K post cfg (Suc n) (self, w) =
     (case async_update_data K post cfg self w of (r, self', w') \<Rightarrow> cycles K post cfg n (self', w'))"

text \<open>
  A snapshot of one cycle: the dict of the five entries whose values all come from one
  run of the fetches, started in the portal state \<open>w\<close> and ended in \<open>w'\<close>. The month list
  is fetched first, the active month computed from it, and the three period-scoped
  datasets fetched with that month, each from the state the previous fetch left.
\<close>

definition cycle_snapshot ::
  "constants \<Rightarrow> 'w transport \<Rightarrow> config \<Rightarrow> coordinator \<Rightarrow> 'w \<Rightarrow> 'w \<Rightarrow> pyval \<Rightarrow> bool" where
  "cycle_snapshot K post cfg self w w' snapshot =
     (\<exists>lista_luni luna_activa home index receipts w1 w2 w3.
        snapshot = PDict [(''home'', home), (''index'', index), (''receipts'', receipts),
                          (''lista_luni'', lista_luni), (''luna_activa'', luna_activa)]
        \<and> fetch_data K post self (URL_LISTA_LUNI K)
             (PDict [(''pIdAsoc'', pIdAsoc cfg), (''pIdAp'', pIdAp cfg)]) w = (Inr lista_luni, w1)
        \<and> get_luna_activa lista_luni = Inr luna_activa
        \<and> fetch_data K post self (URL_HOME K)
             (PDict [(''pIdAsoc'', pIdAsoc cfg), (''pIdAp'', pIdAp cfg), (''pLuna'', luna_activa)]) w1
            = (Inr home, w2)
        \<and> fetch_data K post self (URL_INDEX K)
             (PDict [(''pIdAsoc'', pIdAsoc cfg), (''pIdAp'', pIdAp cfg), (''pLuna'', luna_activa)]) w2
            = (Inr index, w3)
        \<and> fetch_data K post self (URL_RECEIPTS K)
             (PDict [(''pIdAsoc'', pIdAsoc cfg), (''pIdAp'', pIdAp cfg), (''pLuna'', luna_activa)]) w3
            = (Inr receipts, w'))"

subsection \<open>A portal to run the coordinator against\<close>

text \<open>
  Concrete values for the examples: constants, a configuration, a portal that accepts
  the login, serves the month list and the home dataset, times out on the meter index
  and answers 404 to anything else, and a portal that refuses every connection. Both
  count the requests they were sent.
\<close>

definition example_constants :: constants where
  "example_constants =
     \<lparr>URL_LOGIN = ''login'', HEADERS_LOGIN = PDict [(''Referer'', PStr ''login'')],
      HEADERS_POST = PDict [(''Referer'', PStr ''index'')], URL_HOME = ''home'',
      URL_INDEX = ''index'', URL_RECEIPTS = ''receipts'', URL_LISTA_LUNI = ''luni''\<rparr>"

definition example_config :: config where
  "example_config =
     \<lparr>pIdAsoc = PStr ''7'', pIdAp = PStr ''12'', pUser = PStr ''user'', pPass = PStr ''secret''\<rparr>"

definition example_portal :: "nat transport" where
  "example_portal req n =
     (case req of
        Post url payload headers \<Rightarrow>
          (if url = ''login''
           then Inr \<lparr>status = 200, text_body = Inr ''<h1>Acces online proprietari</h1>'',
                     json = Inl (ClientError ''not JSON'')\<rparr>
           else if url = ''luni''
           then Inr \<lparr>status = 200, text_body = Inr [],
                     json = Inr (PDict
                       [(''1'', PDict [(''luna'', PStr ''2024-06''), (''open'', PStr ''1'')]),
                        (''2'', PDict [(''luna'', PStr ''2024-05''), (''open'', PStr ''0'')])])\<rparr>
           else if url = ''home''
           then Inr \<lparr>status = 200, text_body = Inr [],
                     json = Inr (PDict [(''1'', PDict [(''datorie'', PInt 123456)])])\<rparr>
           else if url = ''index''
           then Inl (ClientError ''timeout'')
           else Inr \<lparr>status = 404, text_body = Inr ''Not Found'',
                     json = Inl (ClientError ''not JSON'')\<rparr>,
           Suc n))"

definition example_refusing :: "nat transport" where
  "example_refusing req n = (Inl (ClientError ''connection refused''), Suc n)"

text \<open>Built-ins for the examples, in which no string is a number.\<close>

definition example_builtins :: builtins where
  "example_builtins =
     \<lparr>int_str = (\<lambda>s. None), float_str = (\<lambda>s. None), str_builtin = (\<lambda>v. Inl TypeError)\<rparr>"

section \<open>Properties of \<^verbatim>\<open>_get_luna_activa\<close>\<close>

lemma month_entry_luna: "month_entry v \<Longrightarrow> py_getitem v ''luna'' = Inr (luna v)"
  by (cases v) (auto simp: month_entry_def luna_def)

lemma month_entry_open: "month_entry v \<Longrightarrow> \<exists>opn. py_getitem v ''open'' = Inr opn"
  by (cases v) (auto simp: month_entry_def)

text \<open>On well-formed entries the generator is a search for the first closed entry.\<close>

lemma next_luna_find:
  "list_all month_entry (map snd ms) \<Longrightarrow>
   next_luna ms = (case find is_closed (map snd ms) of None \<Rightarrow> Inr PNone
                   | Some v \<Rightarrow> Inr (luna v))"
proof (induction ms)
  case Nil
  then show ?case by simp
next
  case (Cons kv ms)
  obtain k v where kv: "kv = (k, v)" by (cases kv)
  from Cons.prems kv have me: "month_entry v" by simp
  then obtain opn where opn: "py_getitem v ''open'' = Inr opn"
    using month_entry_open by blast
  show ?case
  proof (cases "opn = PStr ''0''")
    case True
    with opn kv me show ?thesis
      by (simp add: thenE_def is_closed_def month_entry_luna)
  next
    case False
    with opn kv Cons show ?thesis by (simp add: thenE_def is_closed_def)
  qed
qed

lemma first_luna_hd:
  "ms \<noteq> [] \<Longrightarrow> list_all month_entry (map snd (take 3 ms)) \<Longrightarrow>
   first_luna (take 3 ms) = Inr (luna (snd (hd ms)))"
  by (cases ms) (auto simp: first_luna_def month_entry_luna)

text \<open>
  C1, as the code has it. For every non-empty month list whose first three entries are
  month entries, \<^verbatim>\<open>_get_luna_activa\<close> looks at the first three entries only and returns
  the month of the first closed one among them when that month is truthy; when none of
  the three is closed, or the month of the first closed one is falsy, it returns the
  month of the very first entry. Two lists with the same first three entries give the
  same result.
\<close>

theorem get_luna_activa_first_three:
  assumes "ms \<noteq> []" and "list_all month_entry (map snd (take 3 ms))"
  shows "get_luna_activa (PDict ms) =
           Inr (case first_closed ms of
                  Some v \<Rightarrow> if truthy (luna v) then luna v else luna (snd (hd ms))
                | None \<Rightarrow> luna (snd (hd ms)))
         \<and> (\<forall>ms'. take 3 ms' = take 3 ms \<longrightarrow>
               get_luna_activa (PDict ms') = get_luna_activa (PDict ms))"
proof
  show "get_luna_activa (PDict ms) =
           Inr (case first_closed ms of
                  Some v \<Rightarrow> if truthy (luna v) then luna v else luna (snd (hd ms))
                | None \<Rightarrow> luna (snd (hd ms)))"
    using assms
    by (simp add: next_luna_find first_luna_hd first_closed_def thenE_def split: option.split)
  show "\<forall>ms'. take 3 ms' = take 3 ms \<longrightarrow>
          get_luna_activa (PDict ms') = get_luna_activa (PDict ms)"
    by simp
qed

text \<open>
  Four months, the second the first closed one: the fourth entry, closed as well, plays
  no part.
\<close>

theorem get_luna_activa_first_three_witness:
  "[(''1'', PDict [(''luna'', PStr ''2024-06''), (''open'', PStr ''1'')]),
    (''2'', PDict [(''luna'', PStr ''2024-05''), (''open'', PStr ''0'')]),
    (''3'', PDict [(''luna'', PStr ''2024-04''), (''open'', PStr ''0'')]),
    (''4'', PDict [(''luna'', PStr ''2024-03''), (''open'', PStr ''0'')])] \<noteq> []
   \<and> list_all month_entry (map snd (take 3
        [(''1'', PDict [(''luna'', PStr ''2024-06''), (''open'', PStr ''1'')]),
         (''2'', PDict [(''luna'', PStr ''2024-05''), (''open'', PStr ''0'')]),
         (''3'', PDict [(''luna'', PStr ''2024-04''), (''open'', PStr ''0'')]),
         (''4'', PDict [(''luna'', PStr ''2024-03''), (''open'', PStr ''0'')])]))
   \<and> get_luna_activa
        (PDict [(''1'', PDict [(''luna'', PStr ''2024-06''), (''open'', PStr ''1'')]),
                (''2'', PDict [(''luna'', PStr ''2024-05''), (''open'', PStr ''0'')]),
                (''3'', PDict [(''luna'', PStr ''2024-04''), (''open'', PStr ''0'')]),
                (''4'', PDict [(''luna'', PStr ''2024-03''), (''open'', PStr ''0'')])])
       = Inr (PStr ''2024-05'')"
  using get_luna_activa_first_three
    [of "[(''1'', PDict [(''luna'', PStr ''2024-06''), (''open'', PStr ''1'')]),
          (''2'', PDict [(''luna'', PStr ''2024-05''), (''open'', PStr ''0'')]),
          (''3'', PDict [(''luna'', PStr ''2024-04''), (''open'', PStr ''0'')]),
          (''4'', PDict [(''luna'', PStr ''2024-03''), (''open'', PStr ''0'')])]"]
  by (simp add: month_entry_def first_closed_def is_closed_def luna_def)

text \<open>
  C1 as the specification words it fails where the first closed entry carries a falsy
  month: the second of these two entries is the first closed one and its month is the
  empty string, yet the function returns the month of the first entry.
\<close>

theorem get_luna_activa_falsy_counterexample:
  "get_luna_activa
     (PDict [(''1'', PDict [(''luna'', PStr ''2024-06''), (''open'', PStr ''1'')]),
             (''2'', PDict [(''luna'', PStr ''''), (''open'', PStr ''0'')])])
     = Inr (PStr ''2024-06'')
   \<and> spec_determineActiveMonth
       [(''1'', PDict [(''luna'', PStr ''2024-06''), (''open'', PStr ''1'')]),
        (''2'', PDict [(''luna'', PStr ''''), (''open'', PStr ''0'')])]
     = PStr ''''"
  by (simp add: thenE_def first_luna_def spec_determineActiveMonth_def first_closed_def
      is_closed_def luna_def)

text \<open>
  C10, as the code has it. When the first closed entry among the first three has a
  falsy month, the truthiness \<^verbatim>\<open>or\<close> discards it and the function returns the month of
  the very first entry. That is the falsy month again exactly when the first entry
  carries the same month, as it does when the first closed entry is the first entry.
\<close>

theorem get_luna_activa_falsy_fallback:
  assumes "list_all month_entry (map snd (take 3 ms))"
    and "first_closed ms = Some v" and "\<not> truthy (luna v)"
  shows "get_luna_activa (PDict ms) = Inr (luna (snd (hd ms)))
       \<and> ((get_luna_activa (PDict ms) = Inr (luna v)) = (luna (snd (hd ms)) = luna v))"
proof -
  from assms(2) have "ms \<noteq> []" by (auto simp: first_closed_def)
  with assms have "get_luna_activa (PDict ms) = Inr (luna (snd (hd ms)))"
    by (simp add: next_luna_find first_luna_hd first_closed_def thenE_def)
  then show ?thesis by simp
qed

theorem get_luna_activa_falsy_fallback_witness:
  "list_all month_entry (map snd (take 3
     [(''1'', PDict [(''luna'', PStr ''2024-06''), (''open'', PStr ''1'')]),
      (''2'', PDict [(''luna'', PNone), (''open'', PStr ''0'')])]))
   \<and> first_closed
        [(''1'', PDict [(''luna'', PStr ''2024-06''), (''open'', PStr ''1'')]),
         (''2'', PDict [(''luna'', PNone), (''open'', PStr ''0'')])]
       = Some (PDict [(''luna'', PNone), (''open'', PStr ''0'')])
   \<and> \<not> truthy (luna (PDict [(''luna'', PNone), (''open'', PStr ''0'')]))
   \<and> get_luna_activa
        (PDict [(''1'', PDict [(''luna'', PStr ''2024-06''), (''open'', PStr ''1'')]),
                (''2'', PDict [(''luna'', PNone), (''open'', PStr ''0'')])])
       = Inr (PStr ''2024-06'')
   \<and> get_luna_activa
        (PDict [(''1'', PDict [(''luna'', PStr ''2024-06''), (''open'', PStr ''1'')]),
                (''2'', PDict [(''luna'', PNone), (''open'', PStr ''0'')])])
       \<noteq> Inr (luna (PDict [(''luna'', PNone), (''open'', PStr ''0'')]))"
  using get_luna_activa_falsy_fallback
    [of "[(''1'', PDict [(''luna'', PStr ''2024-06''), (''open'', PStr ''1'')]),
          (''2'', PDict [(''luna'', PNone), (''open'', PStr ''0'')])]"
        "PDict [(''luna'', PNone), (''open'', PStr ''0'')]"]
  by (simp add: month_entry_def first_closed_def is_closed_def luna_def)

text \<open>
  C10 as it is worded fails where the first closed entry is the first entry: its month,
  the empty string, is falsy, the fallback reads the same entry, and the function
  returns that falsy month.
\<close>

theorem get_luna_activa_falsy_first_counterexample:
  "list_all month_entry (map snd (take 3
     [(''1'', PDict [(''luna'', PStr []), (''open'', PStr ''0'')])]))
   \<and> first_closed [(''1'', PDict [(''luna'', PStr []), (''open'', PStr ''0'')])]
       = Some (PDict [(''luna'', PStr []), (''open'', PStr ''0'')])
   \<and> luna (PDict [(''luna'', PStr []), (''open'', PStr ''0'')]) = PStr []
   \<and> \<not> truthy (PStr [])
   \<and> get_luna_activa (PDict [(''1'', PDict [(''luna'', PStr []), (''open'', PStr ''0'')])])
       = Inr (PStr [])"
  by (simp add: month_entry_def first_closed_def is_closed_def luna_def thenE_def
      first_luna_def)

text \<open>
  C5. On the empty month list the fallback \<^verbatim>\<open>list(...)[0]\<close> raises IndexError: the
  function does not return an absent month there.
\<close>

theorem get_luna_activa_empty: "get_luna_activa (PDict []) = Inl IndexError"
  by (simp add: thenE_def first_luna_def)

section \<open>Properties of \<^verbatim>\<open>_fetch_data\<close>\<close>

lemma fetch_data_unfold:
  "fetch_data K post self url payload w =
     (if session self
      then (case post (Post url payload (HEADERS_POST K)) w of
              (Inl e, w') \<Rightarrow> (Inr (PDict []), w')
            | (Inr response, w') \<Rightarrow>
                (if status response = 200
                 then (case json response of Inl e \<Rightarrow> Inr (PDict []) | Inr body \<Rightarrow> Inr body)
                 else Inr (PDict []), w'))
      else (Inr (PDict []), w))"
  by (simp add: fetch_data_def fetch_data_try_def split: prod.split sum.split)

lemma fetch_data_returns: "\<exists>body w'. fetch_data K post self url payload w = (Inr body, w')"
  by (simp add: fetch_data_unfold split: prod.split sum.split)

lemma fetch_data_frame:
  "fetch_data K post (self\<lparr>data := d\<rparr>) url payload w = fetch_data K post self url payload w"
  by (simp add: fetch_data_unfold)

text \<open>
  C2. For every URL and payload, and whatever the transport does, \<^verbatim>\<open>_fetch_data\<close>
  returns a value and never raises. With status 200 and a body that decodes it returns
  the decoded body; with any other status, with a body that does not decode, and when
  the transport raises, it returns the empty dict. (Without a session the attribute
  access raises inside the \<^verbatim>\<open>try\<close>, and the result is the empty dict as well.)
\<close>

theorem fetch_data_total:
  "(\<exists>body w'. fetch_data K post self url payload w = (Inr body, w'))
   \<and> (\<forall>response w' body.
        session self \<and> post (Post url payload (HEADERS_POST K)) w = (Inr response, w')
        \<and> status response = 200 \<and> json response = Inr body
        \<longrightarrow> fetch_data K post self url payload w = (Inr body, w'))
   \<and> (\<forall>response w'.
        session self \<and> post (Post url payload (HEADERS_POST K)) w = (Inr response, w')
        \<and> status response \<noteq> 200
        \<longrightarrow> fetch_data K post self url payload w = (Inr (PDict []), w'))
   \<and> (\<forall>response w' e.
        session self \<and> post (Post url payload (HEADERS_POST K)) w = (Inr response, w')
        \<and> status response = 200 \<and> json response = Inl e
        \<longrightarrow> fetch_data K post self url payload w = (Inr (PDict []), w'))
   \<and> (\<forall>e w'.
        session self \<and> post (Post url payload (HEADERS_POST K)) w = (Inl e, w')
        \<longrightarrow> fetch_data K post self url payload w = (Inr (PDict []), w'))
   \<and> (session self \<or> fetch_data K post self url payload w = (Inr (PDict []), w))"
  using fetch_data_returns [of K post self url payload w]
  by (simp add: fetch_data_unfold)

text \<open>The example portal serves the home dataset and times out on the meter index.\<close>

theorem fetch_data_total_witness:
  "session \<lparr>session = True, authenticated = True, data = None\<rparr>
   \<and> example_portal (Post ''home'' (PDict [(''pLuna'', PStr ''2024-05'')])
        (HEADERS_POST example_constants)) 0
       = (Inr \<lparr>status = 200, text_body = Inr [],
                json = Inr (PDict [(''1'', PDict [(''datorie'', PInt 123456)])])\<rparr>, 1)
   \<and> fetch_data example_constants example_portal
        \<lparr>session = True, authenticated = True, data = None\<rparr>
        ''home'' (PDict [(''pLuna'', PStr ''2024-05'')]) 0
       = (Inr (PDict [(''1'', PDict [(''datorie'', PInt 123456)])]), 1)
   \<and> example_portal (Post ''index'' (PDict [(''pLuna'', PStr ''2024-05'')])
        (HEADERS_POST example_constants)) 1
       = (Inl (ClientError ''timeout''), 2)
   \<and> fetch_data example_constants example_portal
        \<lparr>session = True, authenticated = True, data = None\<rparr>
        ''index'' (PDict [(''pLuna'', PStr ''2024-05'')]) 1
       = (Inr (PDict []), 2)"
  using fetch_data_total
    [where K = example_constants and post = example_portal
      and self = "\<lparr>session = True, authenticated = True, data = None\<rparr>"
      and url = "''home''" and payload = "PDict [(''pLuna'', PStr ''2024-05'')]" and w = 0]
    fetch_data_total
    [where K = example_constants and post = example_portal
      and self = "\<lparr>session = True, authenticated = True, data = None\<rparr>"
      and url = "''index''" and payload = "PDict [(''pLuna'', PStr ''2024-05'')]" and w = 1]
  by (simp add: example_portal_def)

section \<open>Properties of \<^verbatim>\<open>_authenticate\<close>\<close>

lemma authenticate_keeps:
  "authenticate K post cfg self w = (r, self', w') \<Longrightarrow> authenticated self \<Longrightarrow> authenticated self'"
  by (auto simp: authenticate_def authenticate_try_def Let_def
      split: prod.splits sum.splits if_splits)

lemma authenticate_data:
  "authenticate K post cfg self w = (r, self', w') \<Longrightarrow>
   data self' = data self \<and> session self' = session self"
  by (auto simp: authenticate_def authenticate_try_def Let_def
      split: prod.splits sum.splits if_splits)

lemma authenticate_frame:
  "authenticate K post cfg (self\<lparr>data := d\<rparr>) w
   = (case authenticate K post cfg self w of (r, self', w') \<Rightarrow> (r, self'\<lparr>data := d\<rparr>, w'))"
  by (simp add: authenticate_def authenticate_try_def Let_def split: prod.split sum.split)

text \<open>
  C4. \<^verbatim>\<open>_authenticate\<close> succeeds exactly when the login request is answered with status
  200 and a text that contains the marker; then, and only then, it sets the flag.
  In every other case (another status, no marker, the text or the transport raising)
  it raises UpdateFailed and leaves the coordinator as it was, so a flag that was
  false is still false. A cycle that starts without the flag and whose login fails
  ends there, with UpdateFailed, in the portal state the login left: no dataset is
  requested.
\<close>

theorem authenticate_iff:
  "(case authenticate K post cfg self w of
      (Inr u, self', w') \<Rightarrow>
        self' = self\<lparr>authenticated := True\<rparr> \<and> session self
        \<and> (\<exists>response body.
              post (login_request K cfg) w = (Inr response, w')
              \<and> status response = 200 \<and> text_body response = Inr body \<and> py_in marker body)
    | (Inl e, self', w') \<Rightarrow>
        self' = self \<and> (\<exists>c. e = UpdateFailed (Eroare_la_autentificare c))
        \<and> \<not> (session self
              \<and> (\<exists>response body w''.
                    post (login_request K cfg) w = (Inr response, w'')
                    \<and> status response = 200 \<and> text_body response = Inr body
                    \<and> py_in marker body)))
   \<and> (\<forall>e self' w'.
        \<not> authenticated self
        \<and> authenticate K post cfg (self\<lparr>session := True\<rparr>) w = (Inl e, self', w')
        \<longrightarrow> async_update_data K post cfg self w
              = (Inl (UpdateFailed (Eroare_la_actualizarea_datelor e)),
                 self\<lparr>session := True\<rparr>, w')
            \<and> \<not> authenticated (self\<lparr>session := True\<rparr>))"
proof
  show "case authenticate K post cfg self w of
      (Inr u, self', w') \<Rightarrow>
        self' = self\<lparr>authenticated := True\<rparr> \<and> session self
        \<and> (\<exists>response body.
              post (login_request K cfg) w = (Inr response, w')
              \<and> status response = 200 \<and> text_body response = Inr body \<and> py_in marker body)
    | (Inl e, self', w') \<Rightarrow>
        self' = self \<and> (\<exists>c. e = UpdateFailed (Eroare_la_autentificare c))
        \<and> \<not> (session self
              \<and> (\<exists>response body w''.
                    post (login_request K cfg) w = (Inr response, w'')
                    \<and> status response = 200 \<and> text_body response = Inr body
                    \<and> py_in marker body))"
    by (auto simp: authenticate_def authenticate_try_def login_request_def Let_def
        split: prod.split sum.split)
next
  have same: "session self \<Longrightarrow> self\<lparr>session := True\<rparr> = self" by simp
  have fail_same: "self' = self\<lparr>session := True\<rparr>"
    if "authenticate K post cfg (self\<lparr>session := True\<rparr>) w = (Inl e, self', w')"
    for e self' w'
    using that
    by (auto simp: authenticate_def authenticate_try_def Let_def
        split: prod.splits sum.splits if_splits)
  show "\<forall>e self' w'.
        \<not> authenticated self
        \<and> authenticate K post cfg (self\<lparr>session := True\<rparr>) w = (Inl e, self', w')
        \<longrightarrow> async_update_data K post cfg self w
              = (Inl (UpdateFailed (Eroare_la_actualizarea_datelor e)),
                 self\<lparr>session := True\<rparr>, w')
            \<and> \<not> authenticated (self\<lparr>session := True\<rparr>)"
  proof (intro allI impI)
    fix e self' w'
    assume a: "\<not> authenticated self
        \<and> authenticate K post cfg (self\<lparr>session := True\<rparr>) w = (Inl e, self', w')"
    then have s: "self' = self\<lparr>session := True\<rparr>" using fail_same by blast
    show "async_update_data K post cfg self w
              = (Inl (UpdateFailed (Eroare_la_actualizarea_datelor e)),
                 self\<lparr>session := True\<rparr>, w')
            \<and> \<not> authenticated (self\<lparr>session := True\<rparr>)"
    proof (cases "session self")
      case True
      with a s same show ?thesis
        by (simp add: async_update_data_def async_update_data_try_def)
    next
      case False
      with a s show ?thesis
        by (simp add: async_update_data_def async_update_data_try_def)
    qed
  qed
qed

text \<open>
  The refusing portal fails the login and with it the cycle; the example portal
  accepts the login.
\<close>

theorem authenticate_iff_witness:
  "\<not> authenticated init
   \<and> authenticate example_constants example_refusing example_config (init\<lparr>session := True\<rparr>) 0
       = (Inl (UpdateFailed (Eroare_la_autentificare (ClientError ''connection refused''))),
          init\<lparr>session := True\<rparr>, 1)
   \<and> async_update_data example_constants example_refusing example_config init 0
       = (Inl (UpdateFailed (Eroare_la_actualizarea_datelor
            (UpdateFailed (Eroare_la_autentificare (ClientError ''connection refused''))))),
          \<lparr>session = True, authenticated = False, data = None\<rparr>, 1)
   \<and> authenticate example_constants example_portal example_config
        \<lparr>session = True, authenticated = False, data = None\<rparr> 0
       = (Inr (), \<lparr>session = True, authenticated = True, data = None\<rparr>, 1)"
  using authenticate_iff [where K = example_constants and post = example_refusing
      and cfg = example_config and self = init and w = 0]
  by (simp add: init_def authenticate_def authenticate_try_def example_refusing_def
      example_portal_def example_constants_def example_config_def marker_def)

section \<open>Properties of \<^verbatim>\<open>_async_update_data\<close>\<close>

lemma fetch_snapshot_frame:
  "fetch_snapshot K post cfg (self\<lparr>data := d\<rparr>) lista_luni luna_activa w
   = fetch_snapshot K post cfg self lista_luni luna_activa w"
  by (simp add: fetch_snapshot_def fetch_data_frame Let_def split: prod.split sum.split)

lemma fetch_all_frame:
  "fetch_all K post cfg (self\<lparr>data := d\<rparr>) w = fetch_all K post cfg self w"
  by (simp add: fetch_all_def fetch_data_frame fetch_snapshot_frame Let_def split: prod.split sum.split)

lemma async_update_data_try_frame:
  "async_update_data_try K post cfg (self\<lparr>data := d\<rparr>) w
   = (case async_update_data_try K post cfg self w of (r, self', w') \<Rightarrow> (r, self'\<lparr>data := d\<rparr>, w'))"
proof -
  have upd: "self\<lparr>data := d, session := True\<rparr> = self\<lparr>session := True, data := d\<rparr>" by simp
  show ?thesis
    by (simp add: async_update_data_try_def Let_def fetch_all_frame authenticate_frame upd
        split: prod.split sum.split)
qed

text \<open>What a successful run of the fetches returns.\<close>

lemma fetch_snapshot_Inr:
  "fetch_snapshot K post cfg self lista_luni luna_activa w = (r, w') \<Longrightarrow>
   \<exists>home index receipts w1 w2.
     r = Inr (PDict [(''home'', home), (''index'', index), (''receipts'', receipts),
                     (''lista_luni'', lista_luni), (''luna_activa'', luna_activa)])
     \<and> fetch_data K post self (URL_HOME K)
          (PDict [(''pIdAsoc'', pIdAsoc cfg), (''pIdAp'', pIdAp cfg), (''pLuna'', luna_activa)]) w
         = (Inr home, w1)
     \<and> fetch_data K post self (URL_INDEX K)
          (PDict [(''pIdAsoc'', pIdAsoc cfg), (''pIdAp'', pIdAp cfg), (''pLuna'', luna_activa)]) w1
         = (Inr index, w2)
     \<and> fetch_data K post self (URL_RECEIPTS K)
          (PDict [(''pIdAsoc'', pIdAsoc cfg), (''pIdAp'', pIdAp cfg), (''pLuna'', luna_activa)]) w2
         = (Inr receipts, w')"
proof -
  let ?p = "PDict [(''pIdAsoc'', pIdAsoc cfg), (''pIdAp'', pIdAp cfg), (''pLuna'', luna_activa)]"
  assume a: "fetch_snapshot K post cfg self lista_luni luna_activa w = (r, w')"
  obtain home w1 where h: "fetch_data K post self (URL_HOME K) ?p w = (Inr home, w1)"
    using fetch_data_returns [of K post self "URL_HOME K" ?p w] by auto
  obtain index w2 where i: "fetch_data K post self (URL_INDEX K) ?p w1 = (Inr index, w2)"
    using fetch_data_returns [of K post self "URL_INDEX K" ?p w1] by auto
  obtain receipts w3 where c: "fetch_data K post self (URL_RECEIPTS K) ?p w2 = (Inr receipts, w3)"
    using fetch_data_returns [of K post self "URL_RECEIPTS K" ?p w2] by auto
  from a h i c show ?thesis by (simp add: fetch_snapshot_def)
qed

lemma fetch_all_Inr:
  assumes "fetch_all K post cfg self w = (Inr snapshot, w')"
  shows "cycle_snapshot K post cfg self w w' snapshot"
proof -
  let ?p = "PDict [(''pIdAsoc'', pIdAsoc cfg), (''pIdAp'', pIdAp cfg)]"
  obtain lista_luni w1 where l: "fetch_data K post self (URL_LISTA_LUNI K) ?p w = (Inr lista_luni, w1)"
    using fetch_data_returns [of K post self "URL_LISTA_LUNI K" ?p w] by auto
  with assms obtain luna_activa where g: "get_luna_activa lista_luni = Inr luna_activa"
    and f: "fetch_snapshot K post cfg self lista_luni luna_activa w1 = (Inr snapshot, w')"
    by (auto simp: fetch_all_def split: sum.splits)
  from fetch_snapshot_Inr [OF f] l g show ?thesis
    unfolding cycle_snapshot_def by blast
qed

lemma async_update_data_try_Inr:
  assumes "async_update_data_try K post cfg self w = (Inr snapshot, self', w')"
  shows "data self' = data self \<and> (\<exists>w0. cycle_snapshot K post cfg self' w0 w' snapshot)"
proof (cases "authenticated (if session self then self else self\<lparr>session := True\<rparr>)")
  case True
  with assms show ?thesis
    by (auto simp: async_update_data_try_def Let_def split: prod.splits if_splits
        dest: fetch_all_Inr)
next
  case False
  with assms show ?thesis
    by (auto simp: async_update_data_try_def Let_def split: prod.splits sum.splits if_splits
        dest!: fetch_all_Inr authenticate_data)
qed

lemma async_update_data_try_data:
  "async_update_data_try K post cfg self w = (r, self', w') \<Longrightarrow> data self' = data self"
  by (auto simp: async_update_data_try_def Let_def split: prod.splits sum.splits if_splits
      dest!: authenticate_data)

text \<open>
  C3. A cycle either returns a complete snapshot, the dict of the five entries
  \<^verbatim>\<open>home\<close>, \<^verbatim>\<open>index\<close>, \<^verbatim>\<open>receipts\<close>, \<^verbatim>\<open>lista_luni\<close> and \<^verbatim>\<open>luna_activa\<close>, all
  of them produced by the fetches of this one cycle, or it raises UpdateFailed and
  returns no snapshot. In both cases the published snapshot \<^verbatim>\<open>self.data\<close> is what it was
  before: the function never writes it, so nothing partial can be read from it, and
  the host puts the returned dict there in one assignment. The cycle does not depend
  on the snapshot published before either.
\<close>

theorem async_update_data_atomic:
  "(case async_update_data K post cfg self w of
      (Inr snapshot, self', w') \<Rightarrow>
        data self' = data self \<and> (\<exists>w0. cycle_snapshot K post cfg self' w0 w' snapshot)
    | (Inl e, self', w') \<Rightarrow> data self' = data self \<and> is_UpdateFailed e)
   \<and> (\<forall>d. async_update_data K post cfg (self\<lparr>data := d\<rparr>) w
          = (case async_update_data K post cfg self w of
               (r, self', w') \<Rightarrow> (r, self'\<lparr>data := d\<rparr>, w')))"
proof
  obtain r self' w' where t: "async_update_data_try K post cfg self w = (r, self', w')"
    by (cases "async_update_data_try K post cfg self w") auto
  show "case async_update_data K post cfg self w of
      (Inr snapshot, self', w') \<Rightarrow>
        data self' = data self \<and> (\<exists>w0. cycle_snapshot K post cfg self' w0 w' snapshot)
    | (Inl e, self', w') \<Rightarrow> data self' = data self \<and> is_UpdateFailed e"
  proof (cases r)
    case (Inl e)
    with t async_update_data_try_data [OF t] show ?thesis
      by (simp add: async_update_data_def)
  next
    case (Inr snapshot)
    with t async_update_data_try_Inr [of K post cfg self w snapshot self' w'] show ?thesis
      by (simp add: async_update_data_def)
  qed
  show "\<forall>d. async_update_data K post cfg (self\<lparr>data := d\<rparr>) w
          = (case async_update_data K post cfg self w of
               (r, self', w') \<Rightarrow> (r, self'\<lparr>data := d\<rparr>, w'))"
    by (simp add: async_update_data_def async_update_data_try_frame split: prod.split sum.split)
qed


text \<open>
  A first cycle against the example portal: login, month list, then the three datasets,
  of which the meter index and the receipts degrade to the empty dict.
\<close>

theorem async_update_data_atomic_witness:
  "async_update_data example_constants example_portal example_config init 0
     = (Inr (PDict
          [(''home'', PDict [(''1'', PDict [(''datorie'', PInt 123456)])]),
           (''index'', PDict []), (''receipts'', PDict []),
           (''lista_luni'', PDict
              [(''1'', PDict [(''luna'', PStr ''2024-06''), (''open'', PStr ''1'')]),
               (''2'', PDict [(''luna'', PStr ''2024-05''), (''open'', PStr ''0'')])]),
           (''luna_activa'', PStr ''2024-05'')]),
        \<lparr>session = True, authenticated = True, data = None\<rparr>, 5)
   \<and> data (fst (snd (async_update_data example_constants example_portal example_config init 0)))
       = data init"
  using async_update_data_atomic [where K = example_constants and post = example_portal
      and cfg = example_config and self = init and w = 0]
  by (simp add: init_def async_update_data_def async_update_data_try_def authenticate_def
      authenticate_try_def fetch_all_def fetch_snapshot_def fetch_data_unfold thenE_def
      first_luna_def example_portal_def example_constants_def example_config_def marker_def)

section \<open>The authenticated flag\<close>

lemma async_update_data_skips:
  assumes "authenticated self"
  shows "async_update_data_try K post cfg self w
   = (case fetch_all K post cfg (self\<lparr>session := True\<rparr>) w of
        (r, w') \<Rightarrow> (r, self\<lparr>session := True\<rparr>, w'))"
proof (cases "session self")
  case True
  then have eq: "self\<lparr>session := True\<rparr> = self" by simp
  show ?thesis unfolding eq using assms True by (simp add: async_update_data_try_def)
next
  case False
  with assms show ?thesis by (simp add: async_update_data_try_def Let_def)
qed

lemma async_update_data_keeps:
  assumes "authenticated self" and "async_update_data K post cfg self w = (r, self', w')"
  shows "authenticated self'"
  using assms
  by (auto simp: async_update_data_def async_update_data_skips split: prod.splits sum.splits)

lemma cycles_keep:
  "authenticated self \<Longrightarrow> authenticated (fst (cycles K post cfg n (self, w)))"
proof (induction n arbitrary: self w)
  case 0
  then show ?case by simp
next
  case (Suc n)
  obtain r self' w' where s: "async_update_data K post cfg self w = (r, self', w')"
    by (cases "async_update_data K post cfg self w") auto
  with Suc.prems have "authenticated self'" by (rule async_update_data_keeps)
  with s Suc.IH show ?case by simp
qed

text \<open>Under a recording transport a fetch adds at most its own request to the list of requests sent.\<close>

lemma fetch_data_log:
  assumes "fetch_data K (recording post) self url payload (w, sent) = (r, (w', sent'))"
  shows "sent' = sent \<or> sent' = sent @ [Post url payload (HEADERS_POST K)]"
  using assms
  by (auto simp: fetch_data_unfold recording_def split: prod.splits sum.splits if_splits)

lemma fetch_data_no_login:
  assumes "fetch_data K (recording post) self url payload (w, sent) = (r, (w', sent'))"
    and "login_request K cfg \<notin> set sent"
    and "payload \<noteq> PDict [(''pUser'', pUser cfg), (''pPass'', pPass cfg)]"
  shows "login_request K cfg \<notin> set sent'"
  using fetch_data_log [OF assms(1)] assms(2,3)
  by (auto simp: login_request_def)

lemma fetch_snapshot_no_login:
  assumes "fetch_snapshot K (recording post) cfg self lista_luni luna_activa (w, sent) = (r, (w', sent'))"
    and "login_request K cfg \<notin> set sent"
  shows "login_request K cfg \<notin> set sent'"
proof -
  let ?p = "PDict [(''pIdAsoc'', pIdAsoc cfg), (''pIdAp'', pIdAp cfg), (''pLuna'', luna_activa)]"
  have ne: "?p \<noteq> PDict [(''pUser'', pUser cfg), (''pPass'', pPass cfg)]" by simp
  obtain home w1 l1 where f1:
    "fetch_data K (recording post) self (URL_HOME K) ?p (w, sent) = (Inr home, (w1, l1))"
    using fetch_data_returns [of K "recording post" self "URL_HOME K" ?p "(w, sent)"] by auto
  obtain index w2 l2 where f2:
    "fetch_data K (recording post) self (URL_INDEX K) ?p (w1, l1) = (Inr index, (w2, l2))"
    using fetch_data_returns [of K "recording post" self "URL_INDEX K" ?p "(w1, l1)"] by auto
  obtain receipts w3 l3 where f3:
    "fetch_data K (recording post) self (URL_RECEIPTS K) ?p (w2, l2) = (Inr receipts, (w3, l3))"
    using fetch_data_returns [of K "recording post" self "URL_RECEIPTS K" ?p "(w2, l2)"] by auto
  from fetch_data_no_login [OF f1 assms(2) ne] have n1: "login_request K cfg \<notin> set l1" .
  from fetch_data_no_login [OF f2 n1 ne] have n2: "login_request K cfg \<notin> set l2" .
  from fetch_data_no_login [OF f3 n2 ne] have n3: "login_request K cfg \<notin> set l3" .
  from assms(1) f1 f2 f3 have "sent' = l3"
    by (simp add: fetch_snapshot_def)
  with n3 show ?thesis by simp
qed

lemma fetch_all_no_login:
  assumes "fetch_all K (recording post) cfg self (w, sent) = (r, (w', sent'))"
    and "login_request K cfg \<notin> set sent"
  shows "login_request K cfg \<notin> set sent'"
proof -
  let ?p = "PDict [(''pIdAsoc'', pIdAsoc cfg), (''pIdAp'', pIdAp cfg)]"
  have ne: "?p \<noteq> PDict [(''pUser'', pUser cfg), (''pPass'', pPass cfg)]" by simp
  obtain lista_luni w1 l1 where f1:
    "fetch_data K (recording post) self (URL_LISTA_LUNI K) ?p (w, sent) = (Inr lista_luni, (w1, l1))"
    using fetch_data_returns [of K "recording post" self "URL_LISTA_LUNI K" ?p "(w, sent)"] by auto
  from fetch_data_no_login [OF f1 assms(2) ne] have n1: "login_request K cfg \<notin> set l1" .
  show ?thesis
  proof (cases "get_luna_activa lista_luni")
    case (Inl e)
    with assms(1) f1 have "sent' = l1" by (simp add: fetch_all_def)
    with n1 show ?thesis by simp
  next
    case (Inr luna_activa)
    with assms(1) f1
    have "fetch_snapshot K (recording post) cfg self lista_luni luna_activa (w1, l1) = (r, (w', sent'))"
      by (simp add: fetch_all_def)
    from fetch_snapshot_no_login [OF this n1] show ?thesis .
  qed
qed

lemma async_update_data_no_login:
  assumes "authenticated self"
    and "async_update_data K (recording post) cfg self (w, sent) = (r, self', (w', sent'))"
    and "login_request K cfg \<notin> set sent"
  shows "login_request K cfg \<notin> set sent'"
proof -
  obtain r0 w0 l0 where f:
    "fetch_all K (recording post) cfg (self\<lparr>session := True\<rparr>) (w, sent) = (r0, (w0, l0))"
    by (metis surj_pair)
  with assms(1,2) have "sent' = l0"
    by (auto simp: async_update_data_def async_update_data_skips split: sum.splits)
  with fetch_all_no_login [OF f assms(3)] show ?thesis by simp
qed

lemma cycles_no_login:
  "authenticated self \<Longrightarrow> login_request K cfg \<notin> set sent \<Longrightarrow>
   login_request K cfg \<notin> set (snd (snd (cycles K (recording post) cfg n (self, (w, sent)))))"
proof (induction n arbitrary: self w sent)
  case 0
  then show ?case by simp
next
  case (Suc n)
  obtain r self' w' sent' where s:
    "async_update_data K (recording post) cfg self (w, sent) = (r, self', (w', sent'))"
    by (metis surj_pair)
  from Suc.prems(1) s have a: "authenticated self'" by (rule async_update_data_keeps)
  from async_update_data_no_login [OF Suc.prems(1) s Suc.prems(2)]
  have "login_request K cfg \<notin> set sent'" .
  with a s Suc.IH show ?case by simp
qed

text \<open>
  C6. Once the flag is set nothing clears it: \<^verbatim>\<open>_authenticate\<close> and a cycle leave it
  set whether they succeed or fail (\<^verbatim>\<open>_fetch_data\<close> does not touch the coordinator at
  all), so it is still set after any number of cycles, and none of these cycles sends
  the login request.
\<close>

theorem authenticated_never_reset:
  assumes "authenticated self"
  shows "authenticated (fst (snd (authenticate K post cfg self w)))
       \<and> authenticated (fst (snd (async_update_data K post cfg self w)))
       \<and> (\<forall>n. authenticated (fst (cycles K post cfg n (self, w))))
       \<and> (\<forall>n. login_request K cfg \<notin> set (snd (snd (cycles K (recording post) cfg n (self, (w, []))))))"
proof (intro conjI allI)
  show "authenticated (fst (snd (authenticate K post cfg self w)))"
    using assms authenticate_keeps [of K post cfg self w]
    by (cases "authenticate K post cfg self w") auto
  show "authenticated (fst (snd (async_update_data K post cfg self w)))"
    using assms async_update_data_keeps [of self K post cfg w]
    by (cases "async_update_data K post cfg self w") auto
  show "authenticated (fst (cycles K post cfg n (self, w)))" for n
    using assms by (rule cycles_keep)
  show "login_request K cfg \<notin> set (snd (snd (cycles K (recording post) cfg n (self, (w, [])))))" for n
    using assms by (simp add: cycles_no_login)
qed


text \<open>
  Two cycles against the refusing portal, started with the flag set: both fail on the
  empty month list, the flag stays, and only the month list was requested.
\<close>

theorem authenticated_never_reset_witness:
  "authenticated \<lparr>session = True, authenticated = True, data = None\<rparr>
   \<and> cycles example_constants (recording example_refusing) example_config (Suc (Suc 0))
        (\<lparr>session = True, authenticated = True, data = None\<rparr>, (0, []))
       = (\<lparr>session = True, authenticated = True, data = None\<rparr>, 2,
          [Post ''luni'' (PDict [(''pIdAsoc'', PStr ''7''), (''pIdAp'', PStr ''12'')])
             (PDict [(''Referer'', PStr ''index'')]),
           Post ''luni'' (PDict [(''pIdAsoc'', PStr ''7''), (''pIdAp'', PStr ''12'')])
             (PDict [(''Referer'', PStr ''index'')])])
   \<and> login_request example_constants example_config
       \<notin> set (snd (snd (cycles example_constants (recording example_refusing) example_config
                 (Suc (Suc 0)) (\<lparr>session = True, authenticated = True, data = None\<rparr>, (0, [])))))"
  using authenticated_never_reset
    [where self = "\<lparr>session = True, authenticated = True, data = None\<rparr>"
      and K = example_constants and post = example_refusing and cfg = example_config and w = 0]
  by (simp add: async_update_data_def async_update_data_try_def fetch_all_def
      fetch_data_unfold recording_def thenE_def first_luna_def login_request_def
      example_refusing_def example_constants_def example_config_def)

section \<open>Properties of the floats\<close>

text \<open>The exponent is the one that brackets the number.\<close>

lemma bitlen_lower: "0 < a \<Longrightarrow> (2::rat) powi (bitlen a - 1) \<le> of_int a"
proof -
  assume a: "0 < a"
  then have "1 \<le> bitlen a" by (auto simp: bitlen_alt_def)
  with bitlen_bounds [OF a] have "(2::int) ^ nat (bitlen a - 1) \<le> a" by simp
  then have "of_int ((2::int) ^ nat (bitlen a - 1)) \<le> (of_int a :: rat)"
    by (simp only: of_int_le_iff)
  with \<open>1 \<le> bitlen a\<close> show ?thesis by (simp add: power_int_def)
qed

lemma bitlen_upper: "0 < a \<Longrightarrow> (of_int a :: rat) < 2 powi (bitlen a)"
proof -
  assume a: "0 < a"
  with bitlen_bounds [OF a] have "a < (2::int) ^ nat (bitlen a)" by simp
  then have "(of_int a :: rat) < of_int ((2::int) ^ nat (bitlen a))"
    by (simp only: of_int_less_iff)
  with bitlen_nonneg [of a] show ?thesis by (simp add: power_int_def)
qed

lemma exponent_bounds:
  assumes "x \<noteq> 0"
  shows "2 powi (exponent x) \<le> \<bar>x\<bar> \<and> \<bar>x\<bar> < 2 powi (exponent x + 1)"
proof -
  obtain a b where q: "quotient_of \<bar>x\<bar> = (a, b)" by (cases "quotient_of \<bar>x\<bar>")
  then have b: "0 < b" by (rule quotient_of_denom_pos)
  from q have x: "\<bar>x\<bar> = of_int a / of_int b" by (rule quotient_of_div)
  from assms have "0 < \<bar>x\<bar>" by simp
  with x b have a: "0 < a" by (simp add: zero_less_divide_iff)
  let ?e = "bitlen a - bitlen b"
  have up: "\<bar>x\<bar> < 2 powi (?e + 1)"
  proof -
    have "of_int a < (2::rat) powi (bitlen a)" using a by (rule bitlen_upper)
    moreover have "(2::rat) powi (bitlen b - 1) \<le> of_int b" using b by (rule bitlen_lower)
    moreover have "(2::rat) powi (bitlen a) = 2 powi (?e + 1) * 2 powi (bitlen b - 1)"
      by (simp flip: power_int_add)
    moreover have "(2::rat) powi (?e + 1) * 2 powi (bitlen b - 1) \<le> 2 powi (?e + 1) * of_int b"
      using \<open>(2::rat) powi (bitlen b - 1) \<le> of_int b\<close> by (intro mult_left_mono) simp_all
    ultimately have "of_int a < (2::rat) powi (?e + 1) * of_int b"
      by linarith
    with b x show ?thesis by (simp add: pos_divide_less_eq)
  qed
  have lo: "2 powi (?e - 1) \<le> \<bar>x\<bar>"
  proof -
    have "(2::rat) powi (bitlen a - 1) \<le> of_int a" using a by (rule bitlen_lower)
    moreover have "of_int b < (2::rat) powi (bitlen b)" using b by (rule bitlen_upper)
    moreover have "(2::rat) powi (bitlen a - 1) = 2 powi (?e - 1) * 2 powi (bitlen b)"
      by (simp flip: power_int_add)
    moreover have "(2::rat) powi (?e - 1) * of_int b \<le> 2 powi (?e - 1) * 2 powi (bitlen b)"
      using \<open>of_int b < (2::rat) powi (bitlen b)\<close> by (intro mult_left_mono) simp_all
    ultimately have "(2::rat) powi (?e - 1) * of_int b \<le> of_int a"
      by linarith
    with b x show ?thesis by (simp add: pos_le_divide_eq)
  qed
  show ?thesis
  proof (cases "2 powi ?e \<le> \<bar>x\<bar>")
    case True
    with q up show ?thesis by (simp add: exponent_def)
  next
    case False
    with q lo show ?thesis by (simp add: exponent_def)
  qed
qed

lemma exponent_unique:
  assumes "2 powi e \<le> \<bar>x\<bar>" and "\<bar>x\<bar> < 2 powi (e + 1)"
  shows "exponent x = e"
proof -
  have "(0::rat) < 2 powi e" by simp
  with assms(1) have "0 < \<bar>x\<bar>" by linarith
  then have nz: "x \<noteq> 0" by simp
  note b = exponent_bounds [OF nz]
  have "\<not> exponent x < e"
  proof
    assume "exponent x < e"
    then have "exponent x + 1 \<le> e" by simp
    then have "(2::rat) powi (exponent x + 1) \<le> 2 powi e" by (rule power_int_increasing) simp
    with b assms(1) show False by linarith
  qed
  moreover have "\<not> e < exponent x"
  proof
    assume "e < exponent x"
    then have "e + 1 \<le> exponent x" by simp
    then have "(2::rat) powi (e + 1) \<le> 2 powi (exponent x)" by (rule power_int_increasing) simp
    with b assms(2) show False by linarith
  qed
  ultimately show ?thesis by simp
qed


lemma round_half_even_of_int: "round_half_even (of_int n) = n"
  by (simp add: round_half_even_def)

lemma round_half_even_near:
  assumes "\<bar>x - of_int m\<bar> < 1 / 2"
  shows "round_half_even x = m"
proof (cases "of_int m \<le> x")
  case True
  with assms have "\<lfloor>x\<rfloor> = m" by (intro floor_unique) linarith+
  with assms True show ?thesis by (simp add: round_half_even_def Let_def)
next
  case False
  have m1: "(of_int (m - 1) :: rat) = of_int m - 1" by simp
  from assms False have "of_int m - 1 \<le> x" and "x < of_int m - 1 + 1" by linarith+
  then have f: "\<lfloor>x\<rfloor> = m - 1" unfolding m1 [symmetric] by (rule floor_unique)
  from assms False have "1 / 2 < x - (of_int m - 1)" by linarith
  then have "1 / 2 < x - of_int (m - 1)" by (simp only: m1)
  with f show ?thesis by (simp add: round_half_even_def Let_def)
qed

lemma round_half_even_error: "\<bar>of_int (round_half_even x) - x\<bar> \<le> 1 / 2"
proof -
  have "of_int \<lfloor>x\<rfloor> \<le> x" and "x < of_int \<lfloor>x\<rfloor> + 1" by linarith+
  then show ?thesis
    by (auto simp: round_half_even_def Let_def)
qed

lemma round_half_even_ge: "of_int a \<le> x \<Longrightarrow> a \<le> round_half_even x"
proof -
  assume "of_int a \<le> x"
  then have "a \<le> \<lfloor>x\<rfloor>" by (simp add: le_floor_iff)
  then show ?thesis by (auto simp: round_half_even_def Let_def)
qed

lemma round_half_even_le: "x \<le> of_int b \<Longrightarrow> round_half_even x \<le> b"
proof (cases "x = of_int b")
  case True
  then show ?thesis by (simp add: round_half_even_of_int)
next
  case False
  assume "x \<le> of_int b"
  with False have "x < of_int b" by simp
  then have "\<lfloor>x\<rfloor> < b" by (simp add: floor_less_iff)
  then show ?thesis by (auto simp: round_half_even_def Let_def)
qed

lemma ulp_pos: "0 < ulp x"
  by (simp add: ulp_def)

lemma to_double_error: "\<bar>to_double x - x\<bar> \<le> ulp x / 2"
proof (cases "x = 0")
  case True
  then show ?thesis using ulp_pos [of x] by (simp add: to_double_def)
next
  case False
  let ?u = "ulp x"
  have u: "0 < ?u" by (rule ulp_pos)
  have "to_double x - x = (of_int (round_half_even (x / ?u)) - x / ?u) * ?u"
    using False u by (simp add: to_double_def algebra_simps)
  then have "\<bar>to_double x - x\<bar> = \<bar>of_int (round_half_even (x / ?u)) - x / ?u\<bar> * ?u"
    using u by (simp add: abs_mult)
  also have "\<dots> \<le> 1 / 2 * ?u"
    using u round_half_even_error [of "x / ?u"] by (intro mult_right_mono) simp_all
  finally show ?thesis by simp
qed

text \<open>
  Multiplying the float nearest to \<open>x\<close> by \<open>c\<close> and rounding gives the integer \<open>x * c\<close>,
  where the floats around \<open>x\<close> are less than \<open>1 / c\<close> apart.
\<close>

lemma round_scaled:
  assumes "x * c = of_int k" and "0 < c" and "c * ulp x < 1"
  shows "round_half_even (to_double x * c) = k"
proof (rule round_half_even_near)
  have "to_double x * c - of_int k = (to_double x - x) * c"
    using assms(1) by (simp add: algebra_simps)
  then have "\<bar>to_double x * c - of_int k\<bar> = \<bar>to_double x - x\<bar> * c"
    using assms(2) by (simp add: abs_mult)
  also have "\<dots> \<le> ulp x / 2 * c"
    using assms(2) to_double_error [of x] by (intro mult_right_mono) simp_all
  also have "\<dots> < 1 / 2" using assms(3) by (simp add: mult.commute)
  finally show "\<bar>to_double x * c - of_int k\<bar> < 1 / 2" .
qed

lemma exponent_less:
  assumes "x \<noteq> 0" and "\<bar>x\<bar> < 2 powi (e + 1)"
  shows "exponent x \<le> e"
proof (rule ccontr)
  assume "\<not> exponent x \<le> e"
  then have "e + 1 \<le> exponent x" by simp
  then have "(2::rat) powi (e + 1) \<le> 2 powi (exponent x)" by (rule power_int_increasing) simp
  with exponent_bounds [OF assms(1)] assms(2) show False by linarith
qed

lemma exponent_greater:
  assumes "2 powi e \<le> \<bar>x\<bar>"
  shows "e \<le> exponent x"
proof (rule ccontr)
  have "(0::rat) < 2 powi e" by simp
  with assms have "0 < \<bar>x\<bar>" by linarith
  then have nz: "x \<noteq> 0" by simp
  assume "\<not> e \<le> exponent x"
  then have "exponent x + 1 \<le> e" by simp
  then have "(2::rat) powi (exponent x + 1) \<le> 2 powi e" by (rule power_int_increasing) simp
  with exponent_bounds [OF nz] assms show False by linarith
qed

lemma ulp_le:
  assumes "x \<noteq> 0" and "\<bar>x\<bar> < 2 powi (e + 1)" and "- 1022 \<le> e"
  shows "ulp x \<le> 2 powi (e - 52)"
proof -
  from assms(1,2) have "exponent x \<le> e" by (rule exponent_less)
  with assms(3) have "max (exponent x) (- 1022) - 52 \<le> e - 52" by simp
  then show ?thesis unfolding ulp_def by (rule power_int_increasing) simp
qed


lemma to_double_zero: "to_double 0 = 0"
  by (simp add: to_double_def)

lemma to_double_exact:
  assumes "x / ulp x = of_int m"
  shows "to_double x = x"
proof (cases "x = 0")
  case True
  then show ?thesis by (simp add: to_double_def)
next
  case False
  have "of_int (round_half_even (x / ulp x)) * ulp x = x / ulp x * ulp x"
    by (simp only: assms round_half_even_of_int)
  also have "\<dots> = x" using ulp_pos [of x] by simp
  finally show ?thesis using False by (simp add: to_double_def)
qed

lemma ulp_exponent: "- 1022 \<le> e \<Longrightarrow> exponent x = e \<Longrightarrow> ulp x = 2 powi (e - 52)"
  by (simp add: ulp_def)

lemma powi_52: "(2::rat) ^ 52 * 2 powi (E - 52) = 2 powi E"
proof -
  have "(2::rat) powi 52 * 2 powi (E - 52) = 2 powi (52 + (E - 52))"
    by (subst power_int_add) simp_all
  then show ?thesis by simp
qed

lemma powi_53: "(2::rat) ^ 53 * 2 powi (E - 52) = 2 powi (E + 1)"
proof -
  have "(2::rat) powi 53 * 2 powi (E - 52) = 2 powi (53 + (E - 52))"
    by (subst power_int_add) simp_all
  then show ?thesis by (simp add: add.commute)
qed

lemma powi_52n: "4503599627370496 * 2 powi (E - 52) = (2::rat) powi E"
  using powi_52 [of E] by simp

lemma powi_53n: "9007199254740992 * 2 powi (E - 52) = (2::rat) powi (E + 1)"
  using powi_53 [of E] by simp

lemma to_double_near:
  assumes E: "- 1022 \<le> E" and M: "2 ^ 52 < \<bar>M\<bar>" "\<bar>M\<bar> < 2 ^ 53"
    and d: "\<bar>d - of_int M * 2 powi (E - 52)\<bar> < 2 powi (E - 52) / 2"
  shows "to_double d = of_int M * 2 powi (E - 52)"
proof -
  let ?u = "(2::rat) powi (E - 52)"
  have u: "0 < ?u" by simp
  have aM: "\<bar>of_int M * ?u\<bar> = of_int \<bar>M\<bar> * ?u" using u by (simp add: abs_mult)
  define a where "a = 2 ^ 52 * ?u"
  from M(1) have "2 ^ 52 + 1 \<le> \<bar>M\<bar>" by simp
  then have "(of_int (2 ^ 52 + 1) :: rat) \<le> of_int \<bar>M\<bar>" by (simp only: of_int_le_iff)
  then have "of_int (2 ^ 52 + 1) * ?u \<le> of_int \<bar>M\<bar> * ?u"
    using u by (intro mult_right_mono) simp_all
  then have lo: "a + ?u \<le> of_int \<bar>M\<bar> * ?u" by (simp add: a_def algebra_simps)
  from M(2) have "\<bar>M\<bar> \<le> 2 ^ 53 - 1" by simp
  then have "(of_int \<bar>M\<bar> :: rat) \<le> of_int (2 ^ 53 - 1)" by (simp only: of_int_le_iff)
  then have "of_int \<bar>M\<bar> * ?u \<le> of_int (2 ^ 53 - 1) * ?u"
    using u by (intro mult_right_mono) simp_all
  then have hi: "of_int \<bar>M\<bar> * ?u \<le> 2 * a - ?u" by (simp add: a_def algebra_simps)
  have tri1: "\<bar>of_int M * ?u\<bar> - \<bar>d - of_int M * ?u\<bar> \<le> \<bar>d\<bar>" by linarith
  have tri2: "\<bar>d\<bar> \<le> \<bar>of_int M * ?u\<bar> + \<bar>d - of_int M * ?u\<bar>" by linarith
  have "a < \<bar>d\<bar>" using lo tri1 d u unfolding aM by linarith
  moreover have "a = 2 powi E" unfolding a_def by (rule powi_52)
  ultimately have lower: "2 powi E \<le> \<bar>d\<bar>" by simp
  have "\<bar>d\<bar> < 2 * a" using hi tri2 d u unfolding aM by linarith
  moreover have "2 * a = 2 powi (E + 1)" unfolding a_def using powi_53 [of E] by simp
  ultimately have upper: "\<bar>d\<bar> < 2 powi (E + 1)" by simp
  from lower upper have ex: "exponent d = E" by (rule exponent_unique)
  with E have ud: "ulp d = ?u" by (simp add: ulp_exponent)
  have "(0::rat) < 2 powi E" by simp
  with lower have "0 < \<bar>d\<bar>" by linarith
  then have nz: "d \<noteq> 0" by simp
  have "d / ?u - of_int M = (d - of_int M * ?u) / ?u" using u by (simp add: field_simps)
  then have "\<bar>d / ?u - of_int M\<bar> = \<bar>d - of_int M * ?u\<bar> / ?u" using u by simp
  also have "\<dots> < (?u / 2) / ?u" using d u by (intro divide_strict_right_mono) simp_all
  also have "\<dots> = 1 / 2" using u by simp
  finally have "round_half_even (d / ?u) = M" by (rule round_half_even_near)
  with nz ud show ?thesis by (simp add: to_double_def)
qed

lemma to_double_repr:
  assumes E: "- 1022 \<le> E" and M: "2 ^ 52 \<le> \<bar>M\<bar>" "\<bar>M\<bar> \<le> 2 ^ 53"
  shows "to_double (of_int M * 2 powi (E - 52)) = of_int M * 2 powi (E - 52)"
proof -
  let ?u = "(2::rat) powi (E - 52)"
  let ?y = "of_int M * ?u"
  have u: "0 < ?u" by simp
  have aM: "\<bar>?y\<bar> = of_int \<bar>M\<bar> * ?u" using u by (simp add: abs_mult)
  consider "\<bar>M\<bar> = 2 ^ 52" | "2 ^ 52 < \<bar>M\<bar>" "\<bar>M\<bar> < 2 ^ 53" | "\<bar>M\<bar> = 2 ^ 53"
    using M by linarith
  then show ?thesis
  proof cases
    case 1
    then have "\<bar>?y\<bar> = 2 powi E" unfolding aM by (simp add: powi_52n)
    moreover have "(2::rat) powi E < 2 powi (E + 1)" by (rule power_int_strict_increasing) simp_all
    ultimately have "exponent ?y = E" by (intro exponent_unique) simp_all
    with E have "ulp ?y = ?u" by (simp add: ulp_exponent)
    then have "?y / ulp ?y = of_int M" using u by simp
    then show ?thesis by (rule to_double_exact)
  next
    case 2
    then show ?thesis using E u by (intro to_double_near) simp_all
  next
    case 3
    then have y: "\<bar>?y\<bar> = 2 powi (E + 1)" unfolding aM by (simp add: powi_53n)
    moreover have "(2::rat) powi (E + 1) < 2 powi (E + 1 + 1)"
      by (rule power_int_strict_increasing) simp_all
    ultimately have "exponent ?y = E + 1" by (intro exponent_unique) simp_all
    with E have uy: "ulp ?y = 2 powi (E + 1 - 52)" by (simp add: ulp_def)
    have "(2::rat) powi (E + 1 - 52) = 2 powi (1 + (E - 52))" by (simp add: algebra_simps)
    also have "\<dots> = 2 powi 1 * ?u" by (subst power_int_add) simp_all
    finally have uy2: "ulp ?y = 2 * ?u" using uy by simp
    from 3 have "M = 2 ^ 53 \<or> M = - (2 ^ 53)" by linarith
    then have "even M" by auto
    then obtain h where h: "M = 2 * h" by (auto elim: evenE)
    have "?y / ulp ?y = ?y / (2 * ?u)" by (simp only: uy2)
    also have "\<dots> = of_int M / 2" using u by simp
    also have "\<dots> = of_int h" by (simp add: h)
    finally show ?thesis by (rule to_double_exact)
  qed
qed

lemma mantissa:
  assumes nz: "x \<noteq> 0" and e: "- 1022 \<le> exponent x"
  shows "2 ^ 52 \<le> \<bar>round_half_even (x / ulp x)\<bar> \<and> \<bar>round_half_even (x / ulp x)\<bar> \<le> 2 ^ 53"
proof -
  let ?e = "exponent x"
  let ?u = "(2::rat) powi (?e - 52)"
  have u: "0 < ?u" by simp
  from e have ux: "ulp x = ?u" by (simp add: ulp_exponent)
  from exponent_bounds [OF nz] have b: "2 ^ 52 * ?u \<le> \<bar>x\<bar>" "\<bar>x\<bar> < 2 ^ 53 * ?u"
    by (simp_all add: powi_52n powi_53n)
  then have q: "2 ^ 52 \<le> \<bar>x\<bar> / ?u" "\<bar>x\<bar> / ?u \<le> 2 ^ 53"
    using u by (simp_all add: pos_le_divide_eq pos_divide_le_eq)
  have ax: "\<bar>x / ?u\<bar> = \<bar>x\<bar> / ?u" using u by simp
  show ?thesis
  proof (cases "0 < x")
    case True
    with q have "of_int (2 ^ 52) \<le> x / ?u" "x / ?u \<le> of_int (2 ^ 53)" by simp_all
    then have "2 ^ 52 \<le> round_half_even (x / ?u)" "round_half_even (x / ?u) \<le> 2 ^ 53"
      by (simp_all only: round_half_even_ge round_half_even_le)
    then show ?thesis unfolding ux by simp
  next
    case False
    with nz have neg: "x < 0" by simp
    with q have "x / ?u \<le> of_int (- (2 ^ 52))" "of_int (- (2 ^ 53)) \<le> x / ?u"
      using u by (simp_all add: field_simps)
    then have "round_half_even (x / ?u) \<le> - (2 ^ 52)" "- (2 ^ 53) \<le> round_half_even (x / ?u)"
      by (simp_all only: round_half_even_ge round_half_even_le)
    then show ?thesis unfolding ux by simp
  qed
qed


lemma to_double_of_int:
  assumes "\<bar>n\<bar> < 2 ^ 53"
  shows "to_double (of_int n) = of_int n"
proof (cases "n = 0")
  case True
  then show ?thesis by (simp add: to_double_zero)
next
  case False
  let ?x = "of_int n :: rat"
  from False have "1 \<le> \<bar>n\<bar>" by simp
  then have "(of_int 1 :: rat) \<le> of_int \<bar>n\<bar>" by (simp only: of_int_le_iff)
  then have "(2::rat) powi 0 \<le> \<bar>?x\<bar>" by simp
  then have lo: "0 \<le> exponent ?x" by (rule exponent_greater)
  from assms have "(of_int \<bar>n\<bar> :: rat) < of_int (2 ^ 53)" by (simp only: of_int_less_iff)
  then have "\<bar>?x\<bar> < 2 powi (52 + 1)" by simp
  moreover from False have nz: "?x \<noteq> 0" by simp
  ultimately have hi: "exponent ?x \<le> 52" by (intro exponent_less)
  define k where "k = nat (52 - exponent ?x)"
  from lo hi have e: "exponent ?x - 52 = - int k" by (simp add: k_def)
  from lo have "ulp ?x = 2 powi (exponent ?x - 52)" by (simp add: ulp_def)
  then have uk: "ulp ?x = inverse (2 ^ k)" by (simp add: e power_int_minus)
  have "?x / ulp ?x = ?x / inverse (2 ^ k)" by (simp only: uk)
  also have "\<dots> = of_int (n * 2 ^ k)" by (simp add: divide_inverse)
  finally show ?thesis by (rule to_double_exact)
qed

lemma round_thousandths_int:
  assumes "\<bar>n\<bar> < 2 ^ 52"
  shows "round_half_even (to_double (of_int n / 1000) * 1000) = n"
proof (cases "n = 0")
  case True
  then show ?thesis by (simp add: to_double_zero round_half_even_def)
next
  case False
  let ?x = "of_int n / 1000 :: rat"
  from False have nz: "?x \<noteq> 0" by simp
  from assms have "(of_int \<bar>n\<bar> :: rat) < of_int (2 ^ 52)" by (simp only: of_int_less_iff)
  then have "\<bar>?x\<bar> < 2 ^ 52 / 1000" by simp
  also have "\<dots> < (2::rat) powi (42 + 1)" by simp
  finally have "ulp ?x \<le> 2 powi (42 - 52)" using nz by (intro ulp_le) simp_all
  then have "1000 * ulp ?x < 1" by simp
  then show ?thesis by (intro round_scaled) simp_all
qed

lemma round_hundredths_int:
  assumes "\<bar>of_int n / 100 :: rat\<bar> < 2 ^ 46"
  shows "round_half_even (to_double (of_int n / 100) * 100) = n"
proof (cases "n = 0")
  case True
  then show ?thesis by (simp add: to_double_zero round_half_even_def)
next
  case False
  let ?x = "of_int n / 100 :: rat"
  from False have nz: "?x \<noteq> 0" by simp
  from assms have "\<bar>?x\<bar> < (2::rat) powi (45 + 1)" by simp
  then have "ulp ?x \<le> 2 powi (45 - 52)" using nz by (intro ulp_le) simp_all
  then have "100 * ulp ?x < 1" by simp
  then show ?thesis by (intro round_scaled) simp_all
qed

lemma to_double_5_2: "to_double (5 / 2) = 5 / 2"
proof -
  have "exponent (5 / 2) = 1" by (rule exponent_unique) simp_all
  then have u: "ulp (5 / 2) = 2 powi (- 51)" by (simp add: ulp_def)
  have "(5 / 2) / ulp (5 / 2) = (5 / 2) / 2 powi (- 51)" by (simp only: u)
  also have "\<dots> = of_int (5 * 2 ^ 50)" by simp
  finally show ?thesis by (rule to_double_exact)
qed

lemma to_double_1_400: "to_double (1 / 400) = 5764607523034235 / 2305843009213693952"
proof -
  have "exponent (1 / 400) = - 9" by (rule exponent_unique) simp_all
  then have u: "ulp (1 / 400) = 2 powi (- 61)" by (simp add: ulp_def)
  have "round_half_even ((1 / 400) / 2 powi (- 61)) = 5764607523034235"
    by (rule round_half_even_near) simp
  then show ?thesis by (simp add: to_double_def u)
qed

lemma round_2_5: "round_half_even (to_double (to_double (5 / 2) / 1000) * 1000) = 3"
proof -
  have "to_double (5 / 2) / 1000 = 1 / 400" by (simp add: to_double_5_2)
  then show ?thesis
    by (simp only: to_double_1_400) (rule round_half_even_near, simp)
qed


lemma powi_nonneg: "0 \<le> k \<Longrightarrow> (2::rat) powi k = of_int (2 ^ nat k)"
  by (simp add: power_int_def)

lemma round_cents_same:
  assumes "x * 100 = of_int n"
  shows "to_double (of_int (round_half_even (to_double x * 100)) / 100) = to_double x"
proof (cases "x = 0")
  case True
  then show ?thesis using round_half_even_of_int [of 0] by (simp add: to_double_zero)
next
  case False
  from assms have xn: "x = of_int n / 100" by simp
  with False have "n \<noteq> 0" by auto
  then have "1 \<le> \<bar>n\<bar>" by simp
  then have "(of_int 1 :: rat) \<le> of_int \<bar>n\<bar>" by (simp only: of_int_le_iff)
  then have "1 / 100 \<le> \<bar>x\<bar>" by (simp add: xn)
  moreover have "(2::rat) powi (- 7) \<le> 1 / 100" by simp
  ultimately have "(2::rat) powi (- 7) \<le> \<bar>x\<bar>" by linarith
  then have e7: "- 7 \<le> exponent x" by (rule exponent_greater)
  let ?e = "exponent x"
  let ?u = "(2::rat) powi (?e - 52)"
  let ?M = "round_half_even (x / ulp x)"
  have u: "0 < ?u" by simp
  from e7 have ux: "ulp x = ?u" by (simp add: ulp_def)
  from e7 have norm: "- 1022 \<le> ?e" by simp
  have y: "to_double x = of_int ?M * ?u" using False by (simp add: to_double_def ux)
  from mantissa [OF False norm] have M: "2 ^ 52 \<le> \<bar>?M\<bar>" "\<bar>?M\<bar> \<le> 2 ^ 53" by simp_all
  have repr: "to_double (to_double x) = to_double x"
    unfolding y using norm M by (rule to_double_repr)
  have whole: ?thesis if "to_double x = of_int Y" for Y
  proof -
    have "to_double x * 100 = of_int (Y * 100)" by (simp add: that)
    then have "round_half_even (to_double x * 100) = Y * 100"
      by (simp only: round_half_even_of_int)
    then have "of_int (round_half_even (to_double x * 100)) / 100 = to_double x"
      by (simp add: that)
    with repr show ?thesis by simp
  qed
  show ?thesis
  proof (cases "?e \<le> 45")
    case True
    have "(2::rat) powi (?e + 1) \<le> 2 powi 46" using True by (intro power_int_increasing) simp_all
    with exponent_bounds [OF False] have "\<bar>x\<bar> < 2 ^ 46" by simp
    then have "round_half_even (to_double (of_int n / 100) * 100) = n"
      unfolding xn by (rule round_hundredths_int)
    then show ?thesis by (simp add: xn)
  next
    case False
    then have e46: "46 \<le> ?e" by simp
    consider "52 \<le> ?e" | "\<bar>?M\<bar> = 2 ^ 52" | "\<bar>?M\<bar> = 2 ^ 53"
      | "?e \<le> 51" "2 ^ 52 < \<bar>?M\<bar>" "\<bar>?M\<bar> < 2 ^ 53"
      using M by linarith
    then show ?thesis
    proof cases
      case 1
      then have "?u = of_int (2 ^ nat (?e - 52))" by (simp add: powi_nonneg)
      then have "to_double x = of_int (?M * 2 ^ nat (?e - 52))" by (simp add: y)
      then show ?thesis by (rule whole)
    next
      case 2
      from e46 have p: "(2::rat) powi ?e = of_int (2 ^ nat ?e)" by (simp add: powi_nonneg)
      from 2 have "?M = 2 ^ 52 \<or> ?M = - (2 ^ 52)" by linarith
      then show ?thesis
      proof
        assume "?M = 2 ^ 52"
        then have "to_double x = 2 ^ 52 * ?u" by (simp add: y)
        also have "\<dots> = of_int (2 ^ nat ?e)" by (simp only: powi_52 p)
        finally show ?thesis by (rule whole)
      next
        assume "?M = - (2 ^ 52)"
        then have "to_double x = - (2 ^ 52 * ?u)" by (simp add: y)
        also have "\<dots> = of_int (- (2 ^ nat ?e))" by (simp only: powi_52 p of_int_minus)
        finally show ?thesis by (rule whole)
      qed
    next
      case 3
      from e46 have p: "(2::rat) powi (?e + 1) = of_int (2 ^ nat (?e + 1))"
        by (simp add: powi_nonneg)
      from 3 have "?M = 2 ^ 53 \<or> ?M = - (2 ^ 53)" by linarith
      then show ?thesis
      proof
        assume "?M = 2 ^ 53"
        then have "to_double x = 2 ^ 53 * ?u" by (simp add: y)
        also have "\<dots> = of_int (2 ^ nat (?e + 1))" by (simp only: powi_53 p)
        finally show ?thesis by (rule whole)
      next
        assume "?M = - (2 ^ 53)"
        then have "to_double x = - (2 ^ 53 * ?u)" by (simp add: y)
        also have "\<dots> = of_int (- (2 ^ nat (?e + 1)))" by (simp only: powi_53 p of_int_minus)
        finally show ?thesis by (rule whole)
      qed
    next
      case 4
      let ?d = "of_int (round_half_even (to_double x * 100)) / 100 :: rat"
      have "?d - to_double x = (of_int (round_half_even (to_double x * 100)) - to_double x * 100) / 100"
        by (simp add: field_simps)
      then have "\<bar>?d - to_double x\<bar>
          = \<bar>of_int (round_half_even (to_double x * 100)) - to_double x * 100\<bar> / 100"
        by (simp only: abs_divide abs_numeral)
      also have "\<dots> \<le> (1 / 2) / 100"
        using round_half_even_error [of "to_double x * 100"] by (intro divide_right_mono) simp_all
      finally have near: "\<bar>?d - to_double x\<bar> \<le> 1 / 200" by simp
      have "(2::rat) powi (- 6) \<le> ?u" using e46 by (intro power_int_increasing) simp_all
      then have "1 / 200 < ?u / 2" by simp
      with near have "\<bar>?d - of_int ?M * ?u\<bar> < ?u / 2" unfolding y by linarith
      with norm 4(2,3) have "to_double ?d = of_int ?M * ?u" by (intro to_double_near)
      then show ?thesis by (simp only: y)
    qed
  qed
qed

section \<open>Properties of the sensors\<close>

lemma float_overflow_small: "\<bar>q\<bar> < 2 ^ 1023 \<Longrightarrow> \<not> float_overflow q"
proof -
  assume a: "\<bar>q\<bar> < 2 ^ 1023"
  have "(2::rat) ^ 970 \<le> 2 ^ 1023" by (rule power_increasing) simp_all
  moreover have "(2::rat) ^ 1024 = 2 * 2 ^ 1023"
    using power_Suc [of "2::rat" 1023] by simp
  ultimately have "(2::rat) ^ 1023 \<le> 2 ^ 1024 - 2 ^ 970" by linarith
  with a show ?thesis unfolding float_overflow_def by linarith
qed

lemma float_overflow_53: "\<bar>q\<bar> < 2 ^ 53 \<Longrightarrow> \<not> float_overflow q"
proof -
  assume a: "\<bar>q\<bar> < 2 ^ 53"
  have "(2::rat) ^ 53 \<le> 2 ^ 1023" by (rule power_increasing) simp_all
  with a have "\<bar>q\<bar> < 2 ^ 1023" by linarith
  then show ?thesis by (rule float_overflow_small)
qed

lemma py_round_cents:
  "\<bar>of_int n / 100 :: rat\<bar> < 2 ^ 46 \<Longrightarrow> py_round 2 (of_int n / 100) = of_int n / 100"
  using round_hundredths_int [of n] by (simp add: py_round_def)

lemma py_round_cents_same: "to_double (py_round 2 (of_int n / 100)) = to_double (of_int n / 100)"
  using round_cents_same [of "of_int n / 100" n] by (simp add: py_round_def)

lemma py_round_thousandths:
  "\<bar>n\<bar> < 2 ^ 52 \<Longrightarrow> py_round 3 (of_int n / 1000) = of_int n / 1000"
  using round_thousandths_int [of n] by (simp add: py_round_def)

lemma py_round_error: "\<bar>py_round 3 x - to_double x\<bar> \<le> 1 / 2000"
proof -
  have "py_round 3 x - to_double x
        = (of_int (round_half_even (to_double x * 1000)) - to_double x * 1000) / 1000"
    by (simp add: py_round_def field_simps)
  then have "\<bar>py_round 3 x - to_double x\<bar>
        = \<bar>of_int (round_half_even (to_double x * 1000)) - to_double x * 1000\<bar> / 1000"
    by (simp only: abs_divide abs_numeral)
  also have "\<dots> \<le> (1 / 2) / 1000"
    using round_half_even_error [of "to_double x * 1000"] by (intro divide_right_mono) simp_all
  finally show ?thesis by simp
qed

lemma home_field_present:
  "map_of s ''home'' = Some (PDict h) \<Longrightarrow> map_of h ''1'' = Some (PDict d) \<Longrightarrow>
   home_field k (PDict s) = Inr (case map_of d k of None \<Rightarrow> PNone | Some v \<Rightarrow> v)"
  by (simp add: home_field_def home_1_def thenE_def)

lemma show_nat_small: "n < 10 \<Longrightarrow> show_nat n = [digit n]"
  by (simp add: show_nat.simps)

lemma show_nat_large: "10 \<le> n \<Longrightarrow> show_nat n = show_nat (n div 10) @ [digit (n mod 10)]"
  by (subst show_nat.simps) simp

lemma show_nat_1234: "show_nat 1234 = ''1234''"
  by (simp add: show_nat_small show_nat_large digit_def)

lemma format_2f_example: "format_2f 1234.56 = ''1234.56''"
proof -
  have "\<bar>of_int 123456 / 100 :: rat\<bar> < 2 ^ 46" by simp
  then have "round_half_even (to_double (of_int 123456 / 100) * 100) = 123456"
    by (rule round_hundredths_int)
  then have "round_half_even (to_double \<bar>1234.56\<bar> * 100) = 123456" by simp
  then show ?thesis
    by (simp add: format_2f_def show_nat_1234 digit_def)
qed

lemma format_2f_zero: "format_2f 0 = ''0.00''"
  using round_half_even_of_int [of 0]
  by (simp add: format_2f_def to_double_zero show_nat_small digit_def)

text \<open>
  C8. \<^verbatim>\<open>RestantaSensor.native_value\<close> divides the integer cents of \<^verbatim>\<open>datorie\<close> by 100,
  rounded to two decimals: for every integer whose quotient fits a float the result is
  the float nearest to the quotient, which the rounding leaves as it is, and up to
  \<open>2 ^ 46\<close> it is written as the decimal itself. The raw value 123456 gives 1234.56,
  shown as \<^verbatim>\<open>1234.56\<close>; an absent or null \<^verbatim>\<open>datorie\<close> gives 0, shown as \<^verbatim>\<open>0.00\<close>.
\<close>

theorem RestantaSensor_native_value_cents:
  assumes "map_of s ''home'' = Some (PDict h)" and "map_of h ''1'' = Some (PDict d)"
  shows "(\<forall>n. map_of d ''datorie'' = Some (PInt n) \<and> \<not> float_overflow (of_int n / 100)
            \<longrightarrow> (\<exists>x. RestantaSensor_native_value B (PDict s) = Inr (PFloat x)
                     \<and> to_double x = to_double (of_int n / 100)))
       \<and> (\<forall>n. map_of d ''datorie'' = Some (PInt n) \<and> \<bar>of_int n / 100 :: rat\<bar> < 2 ^ 46
            \<longrightarrow> RestantaSensor_native_value B (PDict s) = Inr (PFloat (of_int n / 100)))
       \<and> (map_of d ''datorie'' = Some (PInt 123456)
            \<longrightarrow> RestantaSensor_native_value B (PDict s) = Inr (PFloat 1234.56))
       \<and> (map_of d ''datorie'' = None \<or> map_of d ''datorie'' = Some PNone
            \<longrightarrow> RestantaSensor_native_value B (PDict s) = Inr (PFloat 0))
       \<and> format_2f 1234.56 = ''1234.56'' \<and> format_2f 0 = ''0.00''"
proof (intro conjI allI impI)
  fix n
  assume a: "map_of d ''datorie'' = Some (PInt n) \<and> \<not> float_overflow (of_int n / 100)"
  show "\<exists>x. RestantaSensor_native_value B (PDict s) = Inr (PFloat x)
            \<and> to_double x = to_double (of_int n / 100)"
  proof (cases "n = 0")
    case True
    with a assms show ?thesis
      by (simp add: RestantaSensor_native_value_def home_field_present thenE_def)
  next
    case False
    with a assms have "RestantaSensor_native_value B (PDict s)
        = Inr (PFloat (py_round 2 (of_int n / 100)))"
      by (simp add: RestantaSensor_native_value_def home_field_present thenE_def div_100_def)
    then show ?thesis by (simp add: py_round_cents_same)
  qed
next
  fix n
  assume a: "map_of d ''datorie'' = Some (PInt n) \<and> \<bar>of_int n / 100 :: rat\<bar> < 2 ^ 46"
  then have "\<bar>of_int n / 100 :: rat\<bar> < 2 ^ 53" by simp
  then have "\<not> float_overflow (of_int n / 100)" by (rule float_overflow_53)
  with a assms show "RestantaSensor_native_value B (PDict s) = Inr (PFloat (of_int n / 100))"
    by (simp add: RestantaSensor_native_value_def home_field_present thenE_def div_100_def
        py_round_cents)
next
  assume a: "map_of d ''datorie'' = Some (PInt 123456)"
  have b: "\<bar>of_int 123456 / 100 :: rat\<bar> < 2 ^ 46" by simp
  then have "\<bar>of_int 123456 / 100 :: rat\<bar> < 2 ^ 53" by simp
  then have "\<not> float_overflow (of_int 123456 / 100)" by (rule float_overflow_53)
  with a assms show "RestantaSensor_native_value B (PDict s) = Inr (PFloat 1234.56)"
    using py_round_cents [OF b]
    by (simp add: RestantaSensor_native_value_def home_field_present thenE_def div_100_def)
next
  assume "map_of d ''datorie'' = None \<or> map_of d ''datorie'' = Some PNone"
  with assms show "RestantaSensor_native_value B (PDict s) = Inr (PFloat 0)"
    by (auto simp: RestantaSensor_native_value_def home_field_present thenE_def)
next
  show "format_2f 1234.56 = ''1234.56''" by (rule format_2f_example)
  show "format_2f 0 = ''0.00''" by (rule format_2f_zero)
qed

theorem RestantaSensor_native_value_cents_witness:
  "map_of [(''home'', PDict [(''1'', PDict [(''datorie'', PInt 123456)])])] ''home''
     = Some (PDict [(''1'', PDict [(''datorie'', PInt 123456)])])
   \<and> map_of [(''1'', PDict [(''datorie'', PInt 123456)])] ''1''
     = Some (PDict [(''datorie'', PInt 123456)])
   \<and> map_of [(''datorie'', PInt 123456)] ''datorie'' = Some (PInt 123456)
   \<and> RestantaSensor_native_value example_builtins
        (PDict [(''home'', PDict [(''1'', PDict [(''datorie'', PInt 123456)])])])
     = Inr (PFloat 1234.56)"
  using RestantaSensor_native_value_cents
    [where s = "[(''home'', PDict [(''1'', PDict [(''datorie'', PInt 123456)])])]"
      and h = "[(''1'', PDict [(''datorie'', PInt 123456)])]"
      and d = "[(''datorie'', PInt 123456)]" and B = example_builtins]
  by simp

lemma meter_present:
  "map_of s ''index'' = Some (PDict ix) \<Longrightarrow> map_of ix k = Some (PDict d) \<Longrightarrow>
   map_of d ''index_nou'' = Some raw \<Longrightarrow>
   meter_native_value B k (PDict s)
   = except_ValueError_TypeError
       (thenE (py_float B raw) (\<lambda>x. Inr (of_float (float_round 3 (div_1000 x)))))"
  by (simp add: meter_native_value_def index_nou_try_def thenE_def)

text \<open>
  C9, as the code has it. \<^verbatim>\<open>ApaReceSensor.native_value\<close> converts \<^verbatim>\<open>index_nou\<close> with
  \<^verbatim>\<open>float\<close>, divides by 1000 and rounds to three decimals: whatever finite float the
  conversion gives, the result is a multiple of a thousandth within half a thousandth
  of the quotient. The raw integer 1234 gives 1.234 (and so does every integer below
  \<open>2 ^ 52\<close> give its thousandth), the raw float 2.5 gives 0.003. A raw value that
  \<^verbatim>\<open>float\<close> rejects (null, a list, a dict, a string it cannot parse) gives \<^verbatim>\<open>None\<close>, not
  an exception. A boolean is a number for \<^verbatim>\<open>float\<close>: true gives 0.001. NaN and the
  infinities, as values or as strings \<^verbatim>\<open>float\<close> parses, are returned as they are.
\<close>

theorem ApaReceSensor_native_value_thousandths:
  assumes "map_of s ''index'' = Some (PDict ix)" and "map_of ix ''2'' = Some (PDict d)"
    and "map_of d ''index_nou'' = Some raw"
  shows "(\<forall>n. raw = PInt n \<and> \<bar>n\<bar> < 2 ^ 52
            \<longrightarrow> ApaReceSensor_native_value B (PDict s) = Inr (PFloat (of_int n / 1000)))
       \<and> (raw = PInt 1234 \<longrightarrow> ApaReceSensor_native_value B (PDict s) = Inr (PFloat 1.234))
       \<and> (\<forall>x. py_float B raw = Inr (Finite x)
            \<longrightarrow> (\<exists>k. ApaReceSensor_native_value B (PDict s) = Inr (PFloat (of_int k / 1000))
                     \<and> \<bar>of_int k / 1000 - to_double (to_double x / 1000)\<bar> \<le> 1 / 2000))
       \<and> (raw = PFloat 2.5 \<longrightarrow> ApaReceSensor_native_value B (PDict s) = Inr (PFloat 0.003))
       \<and> (raw = PNone \<or> (\<exists>xs. raw = PList xs) \<or> (\<exists>kvs. raw = PDict kvs)
            \<or> (\<exists>t. raw = PStr t \<and> float_str B t = None)
            \<longrightarrow> ApaReceSensor_native_value B (PDict s) = Inr PNone)
       \<and> (\<forall>b. raw = PBool b
            \<longrightarrow> ApaReceSensor_native_value B (PDict s) = Inr (PFloat (if b then 0.001 else 0)))
       \<and> (raw = PNaN \<or> (\<exists>t. raw = PStr t \<and> float_str B t = Some NaN)
            \<longrightarrow> ApaReceSensor_native_value B (PDict s) = Inr PNaN)
       \<and> (raw = PInf \<or> (\<exists>t. raw = PStr t \<and> float_str B t = Some PosInf)
            \<longrightarrow> ApaReceSensor_native_value B (PDict s) = Inr PInf)
       \<and> (raw = PNegInf \<or> (\<exists>t. raw = PStr t \<and> float_str B t = Some NegInf)
            \<longrightarrow> ApaReceSensor_native_value B (PDict s) = Inr PNegInf)"
proof -
  note m = meter_present [OF assms, of B] ApaReceSensor_native_value_def thenE_def
  have ints: "ApaReceSensor_native_value B (PDict s) = Inr (PFloat (of_int n / 1000))"
    if "raw = PInt n" and "\<bar>n\<bar> < 2 ^ 52" for n
  proof -
    from that(2) have "\<bar>n\<bar> < 2 ^ 53" by simp
    then have "(of_int \<bar>n\<bar> :: rat) < of_int (2 ^ 53)" by (simp only: of_int_less_iff)
    then have "\<bar>of_int n :: rat\<bar> < 2 ^ 53" by simp
    then have "\<not> float_overflow (of_int n)" by (rule float_overflow_53)
    moreover from \<open>\<bar>n\<bar> < 2 ^ 53\<close> have "to_double (of_int n) = of_int n"
      by (rule to_double_of_int)
    ultimately show ?thesis using that by (simp add: m py_round_thousandths)
  qed
  show ?thesis
  proof (intro conjI allI impI)
    fix n
    assume "raw = PInt n \<and> \<bar>n\<bar> < 2 ^ 52"
    then show "ApaReceSensor_native_value B (PDict s) = Inr (PFloat (of_int n / 1000))"
      using ints by blast
  next
    assume "raw = PInt 1234"
    then show "ApaReceSensor_native_value B (PDict s) = Inr (PFloat 1.234)"
      using ints [of 1234] by simp
  next
    fix x
    assume "py_float B raw = Inr (Finite x)"
    then have r: "ApaReceSensor_native_value B (PDict s)
        = Inr (PFloat (py_round 3 (to_double x / 1000)))"
      by (simp add: m)
    have "py_round 3 (to_double x / 1000)
        = of_int (round_half_even (to_double (to_double x / 1000) * 1000)) / 1000"
      by (simp add: py_round_def)
    with r py_round_error [of "to_double x / 1000"]
    show "\<exists>k. ApaReceSensor_native_value B (PDict s) = Inr (PFloat (of_int k / 1000))
            \<and> \<bar>of_int k / 1000 - to_double (to_double x / 1000)\<bar> \<le> 1 / 2000"
      by auto
  next
    assume a: "raw = PFloat 2.5"
    have "\<bar>5 / 2 :: rat\<bar> < 2 ^ 53" by simp
    then have "\<not> float_overflow (5 / 2)" by (rule float_overflow_53)
    with a show "ApaReceSensor_native_value B (PDict s) = Inr (PFloat 0.003)"
      using round_2_5 by (simp add: m float_of_rat_def py_round_def)
  next
    assume "raw = PNone \<or> (\<exists>xs. raw = PList xs) \<or> (\<exists>kvs. raw = PDict kvs)
            \<or> (\<exists>t. raw = PStr t \<and> float_str B t = None)"
    then show "ApaReceSensor_native_value B (PDict s) = Inr PNone"
      by (auto simp: m)
  next
    fix b
    assume a: "raw = PBool b"
    have "to_double 1 = 1" using to_double_of_int [of 1] by simp
    with a show "ApaReceSensor_native_value B (PDict s) = Inr (PFloat (if b then 0.001 else 0))"
      using py_round_thousandths [of 1] py_round_thousandths [of 0]
      by (simp add: m to_double_zero)
  next
    assume "raw = PNaN \<or> (\<exists>t. raw = PStr t \<and> float_str B t = Some NaN)"
    then show "ApaReceSensor_native_value B (PDict s) = Inr PNaN"
      by (auto simp: m)
  next
    assume "raw = PInf \<or> (\<exists>t. raw = PStr t \<and> float_str B t = Some PosInf)"
    then show "ApaReceSensor_native_value B (PDict s) = Inr PInf"
      by (auto simp: m)
  next
    assume "raw = PNegInf \<or> (\<exists>t. raw = PStr t \<and> float_str B t = Some NegInf)"
    then show "ApaReceSensor_native_value B (PDict s) = Inr PNegInf"
      by (auto simp: m)
  qed
qed

theorem ApaReceSensor_native_value_thousandths_witness:
  "map_of [(''index'', PDict [(''2'', PDict [(''index_nou'', PInt 1234)])])] ''index''
     = Some (PDict [(''2'', PDict [(''index_nou'', PInt 1234)])])
   \<and> map_of [(''2'', PDict [(''index_nou'', PInt 1234)])] ''2''
     = Some (PDict [(''index_nou'', PInt 1234)])
   \<and> map_of [(''index_nou'', PInt 1234)] ''index_nou'' = Some (PInt 1234)
   \<and> ApaReceSensor_native_value example_builtins
        (PDict [(''index'', PDict [(''2'', PDict [(''index_nou'', PInt 1234)])])])
     = Inr (PFloat 1.234)
   \<and> float_str example_builtins ''n/a'' = None
   \<and> ApaReceSensor_native_value example_builtins
        (PDict [(''index'', PDict [(''2'', PDict [(''index_nou'', PStr ''n/a'')])])])
     = Inr PNone
   \<and> ApaReceSensor_native_value example_builtins
        (PDict [(''index'', PDict [(''2'', PDict [(''index_nou'', PFloat 2.5)])])])
     = Inr (PFloat 0.003)"
  using ApaReceSensor_native_value_thousandths
    [where s = "[(''index'', PDict [(''2'', PDict [(''index_nou'', PFloat 2.5)])])]"
      and ix = "[(''2'', PDict [(''index_nou'', PFloat 2.5)])]"
      and d = "[(''index_nou'', PFloat 2.5)]" and raw = "PFloat 2.5"
      and B = example_builtins]
    ApaReceSensor_native_value_thousandths
    [where s = "[(''index'', PDict [(''2'', PDict [(''index_nou'', PInt 1234)])])]"
      and ix = "[(''2'', PDict [(''index_nou'', PInt 1234)])]"
      and d = "[(''index_nou'', PInt 1234)]" and raw = "PInt 1234" and B = example_builtins]
    ApaReceSensor_native_value_thousandths
    [where s = "[(''index'', PDict [(''2'', PDict [(''index_nou'', PStr ''n/a'')])])]"
      and ix = "[(''2'', PDict [(''index_nou'', PStr ''n/a'')])]"
      and d = "[(''index_nou'', PStr ''n/a'')]" and raw = "PStr ''n/a''"
      and B = example_builtins]
  by (simp add: example_builtins_def)

text \<open>
  C9 as the specification words it fails on a raw value that is not a number in JSON:
  for \<^verbatim>\<open>"index_nou": true\<close> the sensor returns 0.001, not null.
\<close>

theorem ApaReceSensor_native_value_bool_counterexample:
  "ApaReceSensor_native_value example_builtins
     (PDict [(''index'', PDict [(''2'', PDict [(''index_nou'', PBool True)])])])
     = Inr (PFloat 0.001)
   \<and> ApaReceSensor_native_value example_builtins
     (PDict [(''index'', PDict [(''2'', PDict [(''index_nou'', PBool True)])])])
     \<noteq> Inr PNone"
proof -
  have "to_double 1 = 1" using to_double_of_int [of 1] by simp
  then show ?thesis
    using py_round_thousandths [of 1]
    by (simp add: ApaReceSensor_native_value_def meter_native_value_def index_nou_try_def
        thenE_def)
qed

text \<open>
  C7. The reads are not total. On a snapshot whose \<^verbatim>\<open>datorie\<close> is null and whose one
  receipt has a null \<^verbatim>\<open>suma\<close>, \<^verbatim>\<open>ClientSensor.extra_state_attributes\<close> and
  \<^verbatim>\<open>PlatiSensor.extra_state_attributes\<close> raise TypeError from \<^verbatim>\<open>int(None)\<close>, where
  \<^verbatim>\<open>RestantaSensor.native_value\<close> guards the same \<^verbatim>\<open>datorie\<close> and returns 0.
\<close>

theorem sensors_raise_on_null:
  "ClientSensor_extra_state_attributes B
     (PDict [(''home'', PDict [(''1'', PDict [(''ap'', PStr ''12''), (''datorie'', PNone)])]),
             (''index'', PDict []),
             (''receipts'', PDict [(''1'', PDict [(''numar'', PStr ''301''), (''suma'', PNone)])]),
             (''lista_luni'', PDict []), (''luna_activa'', PStr ''2024-05'')])
     = Inl TypeError
   \<and> RestantaSensor_native_value B
     (PDict [(''home'', PDict [(''1'', PDict [(''ap'', PStr ''12''), (''datorie'', PNone)])]),
             (''index'', PDict []),
             (''receipts'', PDict [(''1'', PDict [(''numar'', PStr ''301''), (''suma'', PNone)])]),
             (''lista_luni'', PDict []), (''luna_activa'', PStr ''2024-05'')])
     = Inr (PFloat 0)
   \<and> PlatiSensor_extra_state_attributes B
     (PDict [(''home'', PDict [(''1'', PDict [(''ap'', PStr ''12''), (''datorie'', PNone)])]),
             (''index'', PDict []),
             (''receipts'', PDict [(''1'', PDict [(''numar'', PStr ''301''), (''suma'', PNone)])]),
             (''lista_luni'', PDict []), (''luna_activa'', PStr ''2024-05'')])
     = Inl TypeError"
  by (simp add: ClientSensor_extra_state_attributes_def RestantaSensor_native_value_def
      PlatiSensor_extra_state_attributes_def receipt_text_def
      home_field_def home_1_def thenE_def format_ron_def)

end
